theory Spec2Isabelle
  imports Complex_Main "HOL-Library.Sublist" "HOL-Library.Multiset"
begin

chapter \<open>The model\<close>

section \<open>Python values shared by the models\<close>

text \<open>
  Exceptions of the Python program are values: a function that can raise returns
  \<open>py_error + 'a\<close>, with \<open>Inl\<close> for the exception.  A \<open>try ... except Exception\<close>
  block is the case distinction on that sum.
\<close>

datatype py_error =
    ValueError
  | KeyError
  | IndexError
  | TypeError
  | OSError
  | UnboundLocalError

section \<open>Batch statistics of \<open>process_catalog\<close> (euclid_cutout_remix.py)\<close>

text \<open>
  \<open>stats = {ft: {'success': 0, 'failed': 0, 'errors': []} for ft in file_types}\<close>:
  a dictionary from file type to three counters.
\<close>

record ft_stat =
  success :: nat
  failed :: nat
  errors :: "string list"

type_synonym stats = "string \<rightharpoonup> ft_stat"

text \<open>
  What one call of \<open>_process_single_source_parallel\<close> (or \<open>future.result()\<close>) gives:
  it raises, or it returns \<open>{'obj_id': ..., 'results': {file_type: status}}\<close>.
  The items of \<open>results\<close> are kept in the order of the dictionary.
\<close>

datatype source_outcome =
    Raised
  | Returned string "(string \<times> string) list"

definition init_stats :: "string list \<Rightarrow> stats" where
  "init_stats file_types =
     (\<lambda>ft. if ft \<in> set file_types
           then Some \<lparr>success = 0, failed = 0, errors = []\<rparr> else None)"

text \<open>
  The body of \<open>for file_type, status in results.items()\<close>.  \<open>stats[file_type]\<close>
  raises KeyError for a file type that is not a key; the mutations made before the
  exception stay, so the state travels with the error.
\<close>

fun record_results ::
  "bool \<Rightarrow> string \<Rightarrow> (string \<times> string) list \<Rightarrow> stats \<Rightarrow> stats + stats" where
  "record_results verbose obj_id [] st = Inr st"
| "record_results verbose obj_id ((file_type, status) # rest) st =
     (case st file_type of
        None \<Rightarrow> Inl st
      | Some s \<Rightarrow>
          if status = ''success''
          then record_results verbose obj_id rest
                 (st(file_type \<mapsto> s\<lparr>success := success s + 1\<rparr>))
          else
            let s1 = s\<lparr>failed := failed s + 1\<rparr>;
                s2 = (if verbose \<and> length (errors s1) < 10
                      then s1\<lparr>errors := errors s1 @ [obj_id @ '': '' @ status]\<rparr>
                      else s1)
            in record_results verbose obj_id rest (st(file_type \<mapsto> s2)))"

text \<open>
  The handler \<open>for file_type in file_types: stats[file_type]['failed'] += 1\<close>.
  A KeyError here is not caught by anything and leaves \<open>process_catalog\<close>.
\<close>

fun mark_all_failed :: "string list \<Rightarrow> stats \<Rightarrow> py_error + stats" where
  "mark_all_failed [] st = Inr st"
| "mark_all_failed (file_type # rest) st =
     (case st file_type of
        None \<Rightarrow> Inl KeyError
      | Some s \<Rightarrow> mark_all_failed rest (st(file_type \<mapsto> s\<lparr>failed := failed s + 1\<rparr>)))"

text \<open>One iteration of the loop over the sources (the serial and the parallel branch
  have the same body).\<close>

definition record_source ::
  "bool \<Rightarrow> string list \<Rightarrow> source_outcome \<Rightarrow> stats \<Rightarrow> py_error + stats" where
  "record_source verbose file_types outcome st =
     (case outcome of
        Raised \<Rightarrow> mark_all_failed file_types st
      | Returned obj_id results \<Rightarrow>
          (case record_results verbose obj_id results st of
             Inr st' \<Rightarrow> Inr st'
           | Inl st' \<Rightarrow> mark_all_failed file_types st'))"

fun record_sources ::
  "bool \<Rightarrow> string list \<Rightarrow> source_outcome list \<Rightarrow> stats \<Rightarrow> py_error + stats" where
  "record_sources verbose file_types [] st = Inr st"
| "record_sources verbose file_types (outcome # rest) st =
     (case record_source verbose file_types outcome st of
        Inl e \<Rightarrow> Inl e
      | Inr st' \<Rightarrow> record_sources verbose file_types rest st')"

text \<open>
  \<open>process_catalog\<close>, as far as the statistics go: the column check, the initial
  dictionary and the loop.  \<open>outcomes\<close> lists the per-source results in the order in
  which the loop sees them (catalog order in the serial branch, completion order in the
  parallel one).
\<close>

definition process_catalog ::
  "string list \<Rightarrow> string \<Rightarrow> string \<Rightarrow> bool \<Rightarrow> string list \<Rightarrow> source_outcome list
     \<Rightarrow> py_error + stats" where
  "process_catalog colnames ra_col dec_col verbose file_types outcomes =
     (if ra_col \<notin> set colnames \<or> dec_col \<notin> set colnames then Inl ValueError
      else record_sources verbose file_types outcomes (init_stats file_types))"

definition errors_capped :: "stats \<Rightarrow> bool" where
  "errors_capped st = (\<forall>ft s. st ft = Some s \<longrightarrow> length (errors s) \<le> 10)"

definition sum_all :: "('a \<Rightarrow> bool) \<Rightarrow> 'a + 'a \<Rightarrow> bool" where
  "sum_all P r = (case r of Inl x \<Rightarrow> P x | Inr x \<Rightarrow> P x)"

section \<open>Python strings\<close>

text \<open>
  \<open>s.split(sep)\<close> for a non-empty separator: the occurrences of \<open>sep\<close> are found
  from the left and do not overlap; the result always has at least one element.
  (Python raises ValueError for an empty separator; every separator below is a
  non-empty literal.)
\<close>

fun str_split :: "string \<Rightarrow> string \<Rightarrow> string list" where
  "str_split sep [] = [[]]"
| "str_split sep (c # cs) =
     (if prefix sep (c # cs) then [] # str_split sep (drop (length sep - 1) cs)
      else (case str_split sep cs of
              [] \<Rightarrow> [[c]]
            | p # ps \<Rightarrow> (c # p) # ps))"

text \<open>\<open>sep.join(parts)\<close>.\<close>

fun str_join :: "string \<Rightarrow> string list \<Rightarrow> string" where
  "str_join sep [] = []"
| "str_join sep [p] = p"
| "str_join sep (p # q # ps) = p @ sep @ str_join sep (q # ps)"

text \<open>\<open>key.split('_', 1)\<close> unpacked into two names: ValueError (here \<open>None\<close>) when
  the separator does not occur.\<close>

fun split_once :: "char \<Rightarrow> string \<Rightarrow> (string \<times> string) option" where
  "split_once sep [] = None"
| "split_once sep (c # cs) =
     (if c = sep then Some ([], cs)
      else (case split_once sep cs of
              None \<Rightarrow> None
            | Some (a, b) \<Rightarrow> Some (c # a, b)))"

section \<open>File names (euclid_cutout_remix.py)\<close>

definition get_file_pattern :: "string \<Rightarrow> string" where
  "get_file_pattern file_type =
     (if file_type = ''BGSUB'' then ''BGSUB-MOSAIC''
      else if file_type = ''BGMOD'' then ''BGMOD''
      else if file_type = ''FLAG'' then ''MOSAIC''
      else if file_type = ''RMS'' then ''MOSAIC''
      else if file_type = ''CATALOG-PSF'' then ''CATALOG-PSF''
      else file_type)"

text \<open>
  The local variable \<open>inst_band\<close> of \<open>_parse_filename\<close>: the file name cut at
  \<open>_TILE\<close>, then stripped of the product-type pattern.
\<close>

definition inst_band :: "string \<Rightarrow> string \<Rightarrow> string" where
  "inst_band filename file_type =
     (let notile = hd (str_split ''_TILE'' filename) in
      if file_type \<in> set [''FLAG'', ''RMS'']
      then hd (str_split (''-'' @ file_type)
                 (last (str_split ''EUC_MER_MOSAIC-'' notile)))
      else last (str_split (''EUC_MER_'' @ get_file_pattern file_type @ ''-'') notile))"

text \<open>
  \<open>_parse_filename\<close> (the leading underscore is not an Isabelle name).  The source
  returns \<open>None\<close> from its \<open>except\<close> branch only; no operation of the body
  raises on strings.
\<close>

definition parse_filename :: "string \<Rightarrow> string \<Rightarrow> (string \<times> string) option" where
  "parse_filename filename file_type =
     (let parts = str_split ''-'' (inst_band filename file_type) in
      if length parts = 1 then Some (hd parts, hd parts)
      else Some (hd parts, str_join ''-'' (tl parts)))"

section \<open>The file system as the program sees it\<close>

text \<open>
  The calls of \<open>os\<close> the program makes.  \<open>os.stat\<close> gives the kind of the file
  at a path; the path that does not exist (FileNotFoundError) is \<open>None\<close> here, and
  \<open>Inl\<close> is any other OSError it raises (a directory of the path that the process
  may not search, a loop of symbolic links).  \<open>os.listdir\<close> raises (a subclass of
  OSError) on a path that is not a readable directory.
\<close>

datatype file_kind = Directory | Regular_file

record filesystem =
  stat :: "string \<Rightarrow> py_error + file_kind option"
  listdir :: "string \<Rightarrow> py_error + string list"

text \<open>
  \<open>os.path.exists\<close> and \<open>os.path.isdir\<close> (genericpath.py) call \<open>os.stat\<close> and
  return \<open>False\<close> when it raises OSError, whatever the error is.
\<close>

definition path_exists :: "filesystem \<Rightarrow> string \<Rightarrow> bool" where
  "path_exists fs p =
     (case stat fs p of Inl e \<Rightarrow> False | Inr None \<Rightarrow> False | Inr (Some k) \<Rightarrow> True)"

definition path_isdir :: "filesystem \<Rightarrow> string \<Rightarrow> bool" where
  "path_isdir fs p =
     (case stat fs p of
        Inl e \<Rightarrow> False
      | Inr None \<Rightarrow> False
      | Inr (Some k) \<Rightarrow> k = Directory)"

text \<open>\<open>os.path.join(a, b)\<close> of posixpath, for two arguments.\<close>

definition path_join :: "string \<Rightarrow> string \<Rightarrow> string" where
  "path_join a b =
     (if b \<noteq> [] \<and> hd b = CHR ''/'' then b
      else if a = [] \<or> last a = CHR ''/'' then a @ b
      else a @ ''/'' @ b)"

text \<open>
  A Python dictionary with string keys, in insertion order: \<open>d[k] = v\<close> replaces
  the value in place when the key is there and appends the item otherwise.
\<close>

fun dict_set :: "'k \<Rightarrow> 'v \<Rightarrow> ('k \<times> 'v) list \<Rightarrow> ('k \<times> 'v) list" where
  "dict_set k v [] = [(k, v)]"
| "dict_set k v ((k', v') # rest) =
     (if k' = k then (k, v) # rest else (k', v') # dict_set k v rest)"

section \<open>\<open>find_files\<close> (euclid_cutout_remix.py)\<close>

definition full_band :: "string \<Rightarrow> string \<Rightarrow> string" where
  "full_band file_instrument file_band =
     (if file_instrument \<noteq> file_band then file_instrument @ ''-'' @ file_band
      else file_band)"

definition file_key :: "string \<Rightarrow> string \<Rightarrow> string \<Rightarrow> string" where
  "file_key instrument_dir file_instrument file_band =
     (if file_instrument \<noteq> file_band
      then instrument_dir @ ''_'' @ file_instrument @ ''-'' @ file_band
      else instrument_dir @ ''_'' @ file_band)"

text \<open>The loop \<open>for fits_file in fits_files\<close> of one instrument directory.\<close>

fun add_fits_files ::
  "string \<Rightarrow> string \<Rightarrow> string \<Rightarrow> string list option \<Rightarrow> string list
     \<Rightarrow> (string \<times> string) list \<Rightarrow> (string \<times> string) list" where
  "add_fits_files instrument_dir inst_path file_type bands [] found_files = found_files"
| "add_fits_files instrument_dir inst_path file_type bands (fits_file # rest) found_files =
     (case parse_filename fits_file file_type of
        None \<Rightarrow> add_fits_files instrument_dir inst_path file_type bands rest found_files
      | Some (file_instrument, file_band) \<Rightarrow>
          (case bands of
             None \<Rightarrow>
               add_fits_files instrument_dir inst_path file_type bands rest
                 (dict_set (file_key instrument_dir file_instrument file_band)
                    (path_join inst_path fits_file) found_files)
           | Some bs \<Rightarrow>
               if full_band file_instrument file_band \<notin> set bs
               then add_fits_files instrument_dir inst_path file_type bands rest found_files
               else add_fits_files instrument_dir inst_path file_type bands rest
                      (dict_set (file_key instrument_dir file_instrument file_band)
                         (path_join inst_path fits_file) found_files)))"

text \<open>The two list comprehensions that select the files of one directory.\<close>

definition select_fits_files :: "string \<Rightarrow> string list \<Rightarrow> string list" where
  "select_fits_files file_type files =
     filter (\<lambda>f. \<not> sublist ''FINAL-CAT'' f)
       (filter (\<lambda>f. sublist (''EUC_MER_'' @ get_file_pattern file_type) f
                    \<and> suffix ''.fits'' f) files)"

text \<open>The loop \<open>for instrument_dir in os.listdir(mer_dir)\<close>.\<close>

fun scan_instrument_dirs ::
  "filesystem \<Rightarrow> string \<Rightarrow> string \<Rightarrow> string list option \<Rightarrow> string list option
     \<Rightarrow> string list \<Rightarrow> (string \<times> string) list \<Rightarrow> py_error + (string \<times> string) list" where
  "scan_instrument_dirs fs mer_dir file_type instruments bands [] found_files =
     Inr found_files"
| "scan_instrument_dirs fs mer_dir file_type instruments bands (instrument_dir # rest)
       found_files =
     (let inst_path = path_join mer_dir instrument_dir in
      if \<not> path_isdir fs inst_path
      then scan_instrument_dirs fs mer_dir file_type instruments bands rest found_files
      else if (case instruments of None \<Rightarrow> False | Some is \<Rightarrow> instrument_dir \<notin> set is)
      then scan_instrument_dirs fs mer_dir file_type instruments bands rest found_files
      else
        (case listdir fs inst_path of
           Inl e \<Rightarrow> Inl e
         | Inr files \<Rightarrow>
             scan_instrument_dirs fs mer_dir file_type instruments bands rest
               (add_fits_files instrument_dir inst_path file_type bands
                  (select_fits_files file_type files) found_files)))"

definition find_files ::
  "filesystem \<Rightarrow> string \<Rightarrow> string \<Rightarrow> string \<Rightarrow> string list option \<Rightarrow> string list option
     \<Rightarrow> py_error + (string \<times> string) list" where
  "find_files fs tile_id file_type mer_root instruments bands =
     (let mer_dir = path_join mer_root tile_id in
      if \<not> path_exists fs mer_dir then Inr []
      else
        (case listdir fs mer_dir of
           Inl e \<Rightarrow> Inl e
         | Inr dirs \<Rightarrow>
             scan_instrument_dirs fs mer_dir file_type instruments bands dirs []))"

text \<open>
  What it means for a file of an instrument directory to match the request, and for an
  instrument directory to be searched.
\<close>

definition file_matches :: "string \<Rightarrow> string list option \<Rightarrow> string \<Rightarrow> bool" where
  "file_matches file_type bands f =
     (sublist (''EUC_MER_'' @ get_file_pattern file_type) f
      \<and> suffix ''.fits'' f
      \<and> \<not> sublist ''FINAL-CAT'' f
      \<and> (case parse_filename f file_type of
            None \<Rightarrow> False
          | Some (file_instrument, file_band) \<Rightarrow>
              (case bands of
                 None \<Rightarrow> True
               | Some bs \<Rightarrow> full_band file_instrument file_band \<in> set bs)))"

definition dir_searched :: "filesystem \<Rightarrow> string \<Rightarrow> string list option \<Rightarrow> string \<Rightarrow> bool" where
  "dir_searched fs mer_dir instruments instrument_dir =
     (path_isdir fs (path_join mer_dir instrument_dir)
      \<and> (case instruments of None \<Rightarrow> True | Some is \<Rightarrow> instrument_dir \<in> set is))"

text \<open>
  The tile directory is readable and holds no matching file: every listing the scan
  makes succeeds, and no file of a searched directory matches.
\<close>

definition no_file_matches ::
  "filesystem \<Rightarrow> string \<Rightarrow> string \<Rightarrow> string list option \<Rightarrow> string list option \<Rightarrow> bool" where
  "no_file_matches fs mer_dir file_type instruments bands =
     (case listdir fs mer_dir of
        Inl e \<Rightarrow> False
      | Inr dirs \<Rightarrow>
          list_all (\<lambda>d. \<not> dir_searched fs mer_dir instruments d
                      \<or> (case listdir fs (path_join mer_dir d) of
                            Inl e \<Rightarrow> False
                          | Inr files \<Rightarrow>
                              list_all (\<lambda>f. \<not> file_matches file_type bands f) files))
            dirs)"

text \<open>
  Whether a listing that the scan makes fails: the listing of the tile directory, or the
  listing of an instrument directory that is searched.
\<close>

definition listing_fails :: "filesystem \<Rightarrow> string \<Rightarrow> string list option \<Rightarrow> bool" where
  "listing_fails fs mer_dir instruments =
     (case listdir fs mer_dir of
        Inl e \<Rightarrow> True
      | Inr dirs \<Rightarrow>
          list_ex (\<lambda>d. dir_searched fs mer_dir instruments d
                      \<and> isl (listdir fs (path_join mer_dir d))) dirs)"

text \<open>
  A small tree under \<open>/mer\<close>: tile \<open>T1\<close> with one instrument directory; \<open>T3\<close>,
  which exists but is not a directory; \<open>T4\<close>, a symbolic link to itself, on which
  \<open>os.stat\<close> raises OSError (too many levels of symbolic links); tile \<open>T5\<close>,
  whose only entry \<open>VIS\<close> is such a link; and tile \<open>T6\<close>, whose instrument
  directory \<open>VIS\<close> the process may not read.  No other path exists.
\<close>

definition example_fs :: filesystem where
  "example_fs =
     \<lparr>stat = (\<lambda>p.
         if p \<in> set [''/mer'', ''/mer/T1'', ''/mer/T1/VIS'', ''/mer/T5'', ''/mer/T6'',
                     ''/mer/T6/VIS'']
         then Inr (Some Directory)
         else if p \<in> set [''/mer/T1/notes.txt'', ''/mer/T3''] then Inr (Some Regular_file)
         else if p \<in> set [''/mer/T4'', ''/mer/T5/VIS''] then Inl OSError
         else Inr None),
      listdir = (\<lambda>p.
         if p = ''/mer'' then Inr [''T1'', ''T3'', ''T4'', ''T5'', ''T6'']
         else if p = ''/mer/T1'' then Inr [''VIS'', ''notes.txt'']
         else if p = ''/mer/T1/VIS''
         then Inr [''EUC_MER_BGSUB-MOSAIC-VIS_TILET1-0A1B2C_20241018T164415.fits'',
                   ''EUC_MER_FINAL-CAT_TILET1-0A1B2C_20241018T164415.fits'']
         else if p \<in> set [''/mer/T5'', ''/mer/T6''] then Inr [''VIS'']
         else Inl OSError)\<rparr>"

section \<open>Arrays and sky coordinates\<close>

text \<open>
  A two-dimensional numpy array of floats: its shape and its pixels.  A pixel is a
  number or NaN.  Pixel values and sky coordinates are real numbers here; rounding of
  the machine floats plays no part in what follows.
\<close>

datatype pixel = NaN | Val real

record ndarray =
  nrows :: nat
  ncols :: nat
  pix :: "nat \<Rightarrow> nat \<Rightarrow> pixel"

text \<open>
  Python's \<open>a[start:stop]\<close> on an axis of length \<open>n\<close>: a negative bound counts
  from the end, both bounds are clipped to the axis.  The result is the offset of the
  first element kept and the number of elements kept.
\<close>

definition slice_index :: "nat \<Rightarrow> int \<Rightarrow> int" where
  "slice_index n i = (if i < 0 then max 0 (i + int n) else min i (int n))"

definition slice_bounds :: "nat \<Rightarrow> int \<Rightarrow> int \<Rightarrow> nat \<times> nat" where
  "slice_bounds n start stop =
     (let a = slice_index n start; b = slice_index n stop
      in (nat a, nat (max 0 (b - a))))"

text \<open>\<open>a[y0:y1, x0:x1]\<close>.\<close>

definition slice2 :: "ndarray \<Rightarrow> int \<Rightarrow> int \<Rightarrow> int \<Rightarrow> int \<Rightarrow> ndarray" where
  "slice2 a y0 y1 x0 x1 =
     (let (r0, h) = slice_bounds (nrows a) y0 y1;
          (c0, w) = slice_bounds (ncols a) x0 x1
      in \<lparr>nrows = h, ncols = w, pix = (\<lambda>i j. pix a (r0 + i) (c0 + j))\<rparr>)"

text \<open>\<open>np.isnan(a).any()\<close>.\<close>

definition isnan_any :: "ndarray \<Rightarrow> bool" where
  "isnan_any a =
     list_ex (\<lambda>i. list_ex (\<lambda>j. pix a i j = NaN) [0 ..< ncols a]) [0 ..< nrows a]"

text \<open>\<open>int(x)\<close> of a float: truncation towards zero.\<close>

definition py_int :: "real \<Rightarrow> int" where
  "py_int x = (if 0 \<le> x then \<lfloor>x\<rfloor> else \<lceil>x\<rceil>)"

text \<open>\<open>np.argmin\<close>: the first index of a smallest element; ValueError (here
  \<open>None\<close>) on an empty sequence.\<close>

fun argmin :: "real list \<Rightarrow> nat option" where
  "argmin [] = None"
| "argmin (x # xs) =
     (case argmin xs of
        None \<Rightarrow> Some 0
      | Some i \<Rightarrow> if x \<le> xs ! i then Some 0 else Some (Suc i))"

text \<open>
  \<open>SkyCoord.separation\<close> of astropy is the great-circle distance between two
  positions given in degrees; it is a library function, modelled by its mathematical
  value (in radians).
\<close>

definition deg :: "real \<Rightarrow> real" where
  "deg x = x * pi / 180"

text \<open>\<open>SkyCoord(ra, dec, unit='deg')\<close> raises ValueError for a latitude outside
  \<open>[-90, 90]\<close> degrees; a longitude is wrapped and never refused.\<close>

definition valid_latitude :: "real \<Rightarrow> bool" where
  "valid_latitude dec = (- 90 \<le> dec \<and> dec \<le> 90)"

definition separation :: "real \<Rightarrow> real \<Rightarrow> real \<Rightarrow> real \<Rightarrow> real" where
  "separation ra1 dec1 ra2 dec2 =
     arccos (sin (deg dec1) * sin (deg dec2)
             + cos (deg dec1) * cos (deg dec2) * cos (deg ra1 - deg ra2))"

section \<open>\<open>cutout_psf\<close> (euclid_cutout_remix.py)\<close>

text \<open>
  The \<open>error\<close> strings of the result dictionaries.  The source's messages are
  Chinese sentences; each is named here by what it says.  \<open>Msg_exception\<close> is
  \<open>str(e)\<close> of a caught exception.
\<close>

datatype message =
    Msg_no_stmpsize
  | Msg_outside_image
  | Msg_empty_cutout
  | Msg_no_files string string
  | Msg_all_failed_or_nan
  | Msg_exception py_error

text \<open>The result dictionary of \<open>cutout_image\<close> and \<open>cutout_psf\<close>.  \<open>psf_idx\<close> is
  the \<open>PSF_IDX\<close> card of the header that \<open>cutout_psf\<close> builds.\<close>

record cutout_result =
  c_success :: bool
  c_data :: "ndarray option"
  c_error :: "message option"
  contains_nan :: bool
  psf_idx :: "nat option"

definition cutout_failure :: "message \<Rightarrow> cutout_result" where
  "cutout_failure m =
     \<lparr>c_success = False, c_data = None, c_error = Some m, contains_nan = False,
      psf_idx = None\<rparr>"

text \<open>
  What \<open>cutout_psf\<close> reads from the PSF file: the image of HDU 1, the \<open>STMPSIZE\<close>
  card of its header (absent: \<open>None\<close>; the card holds an integer) and the rows of the
  table of HDU 2.
\<close>

record psf_row =
  p_ra :: real
  p_dec :: real
  x_center :: real
  y_center :: real

record psf_file =
  img_data :: ndarray
  stmpsize_card :: "int option"
  psf_table :: "psf_row list"

text \<open>The lower pixel bound of the stamp on one axis of length \<open>n\<close>, after the two
  adjustments of the source.\<close>

definition stamp_min :: "int \<Rightarrow> nat \<Rightarrow> real \<Rightarrow> int" where
  "stamp_min stmpsize n center =
     (let half_size = stmpsize div 2;
          x_min = max 0 (py_int (center - of_int half_size) - 1)
      in if x_min + stmpsize > int n then int n - stmpsize else x_min)"

text \<open>
  \<open>cutout_psf\<close>.  The argument is \<open>None\<close> when the file cannot be read as a PSF
  file (it cannot be opened, an HDU or a column is missing): the exception is caught by
  the \<open>except\<close> branch, as are the ValueError of an invalid latitude and the one of
  \<open>np.argmin\<close> on an empty table.
\<close>

definition cutout_psf :: "psf_file option \<Rightarrow> real \<Rightarrow> real \<Rightarrow> cutout_result" where
  "cutout_psf file ra dec =
     (case file of
        None \<Rightarrow> cutout_failure (Msg_exception OSError)
      | Some f \<Rightarrow>
          let stmpsize = (case stmpsize_card f of None \<Rightarrow> 0 | Some v \<Rightarrow> v) in
          if stmpsize = 0 then cutout_failure Msg_no_stmpsize
          else if \<not> valid_latitude dec then cutout_failure (Msg_exception ValueError)
          else if \<not> list_all (\<lambda>r. valid_latitude (p_dec r)) (psf_table f)
          then cutout_failure (Msg_exception ValueError)
          else
            (case argmin (map (\<lambda>r. separation ra dec (p_ra r) (p_dec r)) (psf_table f)) of
               None \<Rightarrow> cutout_failure (Msg_exception ValueError)
             | Some nearest_idx \<Rightarrow>
                 let nearest_psf = psf_table f ! nearest_idx;
                     x_min = stamp_min stmpsize (ncols (img_data f)) (x_center nearest_psf);
                     y_min = stamp_min stmpsize (nrows (img_data f)) (y_center nearest_psf)
                 in if x_min < 0 \<or> y_min < 0 then cutout_failure Msg_outside_image
                    else
                      let psf_cutout = slice2 (img_data f) y_min (y_min + stmpsize)
                                          x_min (x_min + stmpsize)
                      in if nrows psf_cutout * ncols psf_cutout = 0
                         then cutout_failure Msg_empty_cutout
                         else \<lparr>c_success = True, c_data = Some psf_cutout, c_error = None,
                               contains_nan = isnan_any psf_cutout,
                               psf_idx = Some nearest_idx\<rparr>))"

text \<open>A 100 by 100 image without NaN and one stamp centred at pixel (1, 1).\<close>

definition example_psf :: "int \<Rightarrow> psf_file" where
  "example_psf stmpsize =
     \<lparr>img_data = \<lparr>nrows = 100, ncols = 100, pix = (\<lambda>i j. Val 0)\<rparr>,
      stmpsize_card = Some stmpsize,
      psf_table = [\<lparr>p_ra = 10, p_dec = 20, x_center = 1, y_center = 1\<rparr>]\<rparr>"

section \<open>\<open>cutout_tile\<close> (euclid_cutout_remix.py)\<close>

text \<open>A stored cutout: the result dictionary with the keys \<open>instrument\<close> and
  \<open>band\<close> added (here \<open>tc_instrument\<close> and \<open>tc_band\<close>).\<close>

record tile_cutout = cutout_result +
  tc_instrument :: string
  tc_band :: string

record tile_result =
  t_success :: bool
  cutouts :: "(string \<times> tile_cutout) list"
  t_error :: "message option"

text \<open>
  \<open>instrument, band = key.split('_', 1)\<close> with its two handlers: for
  \<open>CATALOG-PSF\<close> a key without \<open>_\<close> gets default names, for the other file types
  the file is skipped (\<open>None\<close>).
\<close>

definition key_instrument_band :: "string \<Rightarrow> string \<Rightarrow> (string \<times> string) option" where
  "key_instrument_band file_type key =
     (case split_once (CHR ''_'') key of
        Some ib \<Rightarrow> Some ib
      | None \<Rightarrow> if file_type = ''CATALOG-PSF'' then Some (''CATALOG'', ''PSF'') else None)"

definition store_cutout :: "cutout_result \<Rightarrow> string \<Rightarrow> string \<Rightarrow> tile_cutout" where
  "store_cutout r i b =
     \<lparr>c_success = c_success r, c_data = c_data r, c_error = c_error r,
      contains_nan = contains_nan r, psf_idx = psf_idx r, tc_instrument = i,
      tc_band = b\<rparr>"

text \<open>The loop \<open>for key, filepath in files.items()\<close>; \<open>extr\<close> is the extraction
  applied to a path.\<close>

fun cut_files ::
  "string \<Rightarrow> bool \<Rightarrow> (string \<Rightarrow> cutout_result) \<Rightarrow> (string \<times> string) list
     \<Rightarrow> (string \<times> tile_cutout) list \<Rightarrow> (string \<times> tile_cutout) list" where
  "cut_files file_type skip_nan extr [] cs = cs"
| "cut_files file_type skip_nan extr ((key, filepath) # rest) cs =
     (case key_instrument_band file_type key of
        None \<Rightarrow> cut_files file_type skip_nan extr rest cs
      | Some (i, b) \<Rightarrow>
          let cutout_result = extr filepath in
          if c_success cutout_result
          then if contains_nan cutout_result \<and> skip_nan
               then cut_files file_type skip_nan extr rest cs
               else cut_files file_type skip_nan extr rest
                      (dict_set key (store_cutout cutout_result i b) cs)
          else cut_files file_type skip_nan extr rest cs)"

text \<open>
  The extraction \<open>cutout_tile\<close> applies to a path.  \<open>read_psf\<close> opens a PSF file;
  \<open>cutout_image\<close> stands for \<open>cutout_image(filepath, ra, dec, size)\<close>, whose window
  is cut by astropy's \<open>Cutout2D\<close>.
\<close>

definition extraction ::
  "(string \<Rightarrow> psf_file option) \<Rightarrow> (string \<Rightarrow> cutout_result) \<Rightarrow> real \<Rightarrow> real \<Rightarrow> string
     \<Rightarrow> string \<Rightarrow> cutout_result" where
  "extraction read_psf cutout_image ra dec file_type filepath =
     (if file_type = ''CATALOG-PSF'' then cutout_psf (read_psf filepath) ra dec
      else cutout_image filepath)"

definition cutout_tile ::
  "filesystem \<Rightarrow> (string \<Rightarrow> psf_file option) \<Rightarrow> (string \<Rightarrow> cutout_result) \<Rightarrow> string
     \<Rightarrow> real \<Rightarrow> real \<Rightarrow> string \<Rightarrow> string \<Rightarrow> string list option \<Rightarrow> string list option
     \<Rightarrow> bool \<Rightarrow> tile_result" where
  "cutout_tile fs read_psf cutout_image tile_id ra dec file_type mer_root instruments bands
       skip_nan =
     (case find_files fs tile_id file_type mer_root instruments bands of
        Inl e \<Rightarrow> \<lparr>t_success = False, cutouts = [], t_error = Some (Msg_exception e)\<rparr>
      | Inr files \<Rightarrow>
          if files = []
          then \<lparr>t_success = False, cutouts = [],
                t_error = Some (Msg_no_files tile_id file_type)\<rparr>
          else
            let cs = cut_files file_type skip_nan
                       (extraction read_psf cutout_image ra dec file_type) files []
            in if cs \<noteq> [] then \<lparr>t_success = True, cutouts = cs, t_error = None\<rparr>
               else \<lparr>t_success = False, cutouts = cs,
                     t_error = Some Msg_all_failed_or_nan\<rparr>)"

text \<open>An image extraction that succeeds on every path with a window holding a NaN.\<close>

definition nan_image :: "string \<Rightarrow> cutout_result" where
  "nan_image filepath =
     \<lparr>c_success = True,
      c_data = Some \<lparr>nrows = 1, ncols = 1, pix = (\<lambda>i j. NaN)\<rparr>,
      c_error = None, contains_nan = True, psf_idx = None\<rparr>"

section \<open>\<open>query_tile_id\<close> (euclid_cutout_remix.py)\<close>

text \<open>One row of the tile index; \<open>str(row['TILE_ID'])\<close> is kept as the string.\<close>

record tile_record =
  TILE_ID :: string
  RA_MIN :: real
  RA_MAX :: real
  DEC_MIN :: real
  DEC_MAX :: real
  RA_CENTER :: real
  DEC_CENTER :: real

text \<open>
  A table as \<open>Table.read\<close> returns it: the names of its columns and its rows.  A
  column that the table does not have raises KeyError when it is indexed, whatever the
  rows hold in that field.
\<close>

type_synonym tile_table = "string list \<times> tile_record list"

text \<open>The row mask \<open>(RA_MIN - tolerance <= ra) & ... & (dec <= DEC_MAX + tolerance)\<close>.\<close>

definition in_tile :: "real \<Rightarrow> real \<Rightarrow> real \<Rightarrow> tile_record \<Rightarrow> bool" where
  "in_tile ra dec tolerance t =
     (RA_MIN t - tolerance \<le> ra \<and> ra \<le> RA_MAX t + tolerance
      \<and> DEC_MIN t - tolerance \<le> dec \<and> dec \<le> DEC_MAX t + tolerance)"

definition center_separation :: "real \<Rightarrow> real \<Rightarrow> tile_record \<Rightarrow> real" where
  "center_separation ra dec t = separation ra dec (RA_CENTER t) (DEC_CENTER t)"

text \<open>
  The body of the \<open>try\<close> block.  \<open>Table_read\<close> maps a path to what
  \<open>Table.read\<close> gives for it: an exception or a table.
\<close>

definition query_tile_id_try ::
  "(string \<Rightarrow> py_error + tile_table) \<Rightarrow> real \<Rightarrow> real \<Rightarrow> string \<Rightarrow> real
     \<Rightarrow> py_error + string option" where
  "query_tile_id_try Table_read ra dec tile_index_file tolerance =
     (case Table_read tile_index_file of
        Inl e \<Rightarrow> Inl e
      | Inr (colnames, rows) \<Rightarrow>
          if \<not> set [''RA_MIN'', ''RA_MAX'', ''DEC_MIN'', ''DEC_MAX''] \<subseteq> set colnames
          then Inl KeyError
          else
            let matched_tiles = filter (in_tile ra dec tolerance) rows in
            if length matched_tiles = 0 then Inr None
            else if length matched_tiles = 1
            then (if ''TILE_ID'' \<in> set colnames
                  then Inr (Some (TILE_ID (matched_tiles ! 0)))
                  else Inl KeyError)
            else if \<not> valid_latitude dec then Inl ValueError
            else if \<not> set [''RA_CENTER'', ''DEC_CENTER''] \<subseteq> set colnames
            then Inl KeyError
            else if \<not> list_all (\<lambda>t. valid_latitude (DEC_CENTER t)) matched_tiles
            then Inl ValueError
            else
              (case argmin (map (center_separation ra dec) matched_tiles) of
                 None \<Rightarrow> Inl ValueError
               | Some nearest_idx \<Rightarrow>
                   if ''TILE_ID'' \<in> set colnames
                   then Inr (Some (TILE_ID (matched_tiles ! nearest_idx)))
                   else Inl KeyError))"

text \<open>\<open>query_tile_id\<close>: the \<open>except Exception\<close> branch prints and returns
  \<open>None\<close>.\<close>

definition query_tile_id ::
  "(string \<Rightarrow> py_error + tile_table) \<Rightarrow> real \<Rightarrow> real \<Rightarrow> string \<Rightarrow> real \<Rightarrow> string option" where
  "query_tile_id Table_read ra dec tile_index_file tolerance =
     (case query_tile_id_try Table_read ra dec tile_index_file tolerance of
        Inl e \<Rightarrow> None
      | Inr r \<Rightarrow> r)"

text \<open>
  \<open>query_tile_id\<close> of core/coordinate_matcher.py: the default path of the index,
  the call of the function above with its default tolerance 0.01, and one more
  \<open>except Exception\<close> that returns \<open>None\<close> (the inner function never raises).
\<close>

definition matcher_query_tile_id ::
  "(string \<Rightarrow> py_error + tile_table) \<Rightarrow> string \<Rightarrow> real \<Rightarrow> real \<Rightarrow> string option
     \<Rightarrow> string option" where
  "matcher_query_tile_id Table_read project_root ra dec tile_index_file =
     query_tile_id Table_read ra dec
       (case tile_index_file of
          None \<Rightarrow> path_join project_root ''data/EuclidQ1_tile_coordinates.fits''
        | Some f \<Rightarrow> f)
       (1 / 100)"

definition tile_columns :: "string list" where
  "tile_columns =
     [''TILE_ID'', ''RA_MIN'', ''RA_MAX'', ''DEC_MIN'', ''DEC_MAX'', ''RA_CENTER'',
      ''DEC_CENTER'']"

text \<open>Two tiles that overlap around the position (0, 0), with centres one degree north
  and south of it, and a third one centred on it.\<close>

definition tile_north :: tile_record where
  "tile_north =
     \<lparr>TILE_ID = ''102018211'', RA_MIN = - 1, RA_MAX = 1, DEC_MIN = 0, DEC_MAX = 2,
      RA_CENTER = 0, DEC_CENTER = 1\<rparr>"

definition tile_south :: tile_record where
  "tile_south =
     \<lparr>TILE_ID = ''102018212'', RA_MIN = - 1, RA_MAX = 1, DEC_MIN = - 2, DEC_MAX = 0,
      RA_CENTER = 0, DEC_CENTER = - 1\<rparr>"

definition tile_middle :: tile_record where
  "tile_middle =
     \<lparr>TILE_ID = ''102018213'', RA_MIN = - 1, RA_MAX = 1, DEC_MIN = - 1, DEC_MAX = 1,
      RA_CENTER = 0, DEC_CENTER = 0\<rparr>"

text \<open>An index on disk with one readable file, and one with a second tile.\<close>

definition example_index :: "string \<Rightarrow> py_error + tile_table" where
  "example_index path =
     (if path = ''tile_coordinates.fits'' then Inr (tile_columns, [tile_north, tile_middle])
      else if path = ''no_columns.fits'' then Inr ([''TILE_ID''], [tile_north])
      else Inl OSError)"

section \<open>The cache key (legacy/Euclid_flash_app.py)\<close>

text \<open>
  A finite Python float: the number it stands for, with the negative zero \<open>-0.0\<close>
  apart from the zero \<open>0.0\<close> (\<open>Number 0\<close>).  Infinities and NaN are not
  modelled.  \<open>float_eq\<close> is the comparison \<open>==\<close> of Python, for which the two
  zeros are equal.
\<close>

datatype pyfloat = Number real | Minus_zero

definition float_value :: "pyfloat \<Rightarrow> real" where
  "float_value x = (case x of Number v \<Rightarrow> v | Minus_zero \<Rightarrow> 0)"

definition signbit :: "pyfloat \<Rightarrow> bool" where
  "signbit x = (case x of Number v \<Rightarrow> v < 0 | Minus_zero \<Rightarrow> True)"

definition float_eq :: "pyfloat \<Rightarrow> pyfloat \<Rightarrow> bool" where
  "float_eq x y = (float_value x = float_value y)"

text \<open>
  \<open>round(x, 6)\<close>: the nearest multiple of \<open>10\<^sup>-\<^sup>6\<close>, a tie going to the even one;
  the result keeps the sign of \<open>x\<close>, so a negative number that rounds to zero gives
  \<open>-0.0\<close>.
\<close>

definition round_half_even :: "real \<Rightarrow> int" where
  "round_half_even x =
     (let f = \<lfloor>x\<rfloor>; r = x - of_int f
      in if r < 1 / 2 then f else if 1 / 2 < r then f + 1
         else if even f then f else f + 1)"

definition py_round6 :: "pyfloat \<Rightarrow> pyfloat" where
  "py_round6 x =
     (let r = of_int (round_half_even (float_value x * 1000000)) / 1000000
      in if r = 0 \<and> signbit x then Minus_zero else Number r)"

text \<open>\<open>str(n)\<close> of an integer.\<close>

definition digit_char :: "nat \<Rightarrow> char" where
  "digit_char d = ''0123456789'' ! d"

function str_nat :: "nat \<Rightarrow> string" where
  "str_nat n =
     (if n < 10 then [digit_char n] else str_nat (n div 10) @ [digit_char (n mod 10)])"
  by pat_completeness auto
termination
  by (relation "measure (\<lambda>n. n)") auto

definition str_int :: "int \<Rightarrow> string" where
  "str_int i = (if i < 0 then CHR ''-'' # str_nat (nat (- i)) else str_nat (nat i))"

text \<open>\<open>band if band else 'unknown'\<close>: \<open>None\<close> and the empty string are falsy.\<close>

definition band_or_unknown :: "string option \<Rightarrow> string" where
  "band_or_unknown band =
     (case band of None \<Rightarrow> ''unknown'' | Some b \<Rightarrow> if b = [] then ''unknown'' else b)"

text \<open>
  \<open>generate_source_cache_key\<close>.  \<open>float_str\<close> is Python's formatting of a float in
  an f-string (its shortest repr, \<open>'-0.0'\<close> for the negative zero), a function of the
  language; \<open>cut_size\<close> is the parameter \<open>size\<close>, an integer in every call.
\<close>

definition generate_source_cache_key ::
  "(pyfloat \<Rightarrow> string) \<Rightarrow> pyfloat \<Rightarrow> pyfloat \<Rightarrow> int \<Rightarrow> string \<Rightarrow> string
     \<Rightarrow> string option \<Rightarrow> string"
  where
  "generate_source_cache_key float_str ra dec cut_size instrument file_type band =
     (let ra_rounded = py_round6 ra;
          dec_rounded = py_round6 dec;
          band_str = band_or_unknown band;
          key_parts = [''ra_'' @ float_str ra_rounded, ''dec_'' @ float_str dec_rounded,
                       ''size_'' @ str_int cut_size, ''inst_'' @ instrument,
                       ''type_'' @ file_type, ''band_'' @ band_str]
      in str_join ''_'' key_parts)"

text \<open>
  The bands that a request can carry: \<open>submit_task\<close> sets \<open>config['band']\<close> to
  \<open>None\<close> or to a name of its \<open>band_map\<close>.
\<close>

definition band_map :: "(string \<times> string list) list" where
  "band_map =
     [(''NISP'', [''NIR-Y'', ''NIR-J'', ''NIR-H'']),
      (''DECAM'', [''DES-G'', ''DES-R'', ''DES-I'', ''DES-Z'']),
      (''VIS'', [''VIS'']),
      (''HSC'', [''WISHES-G'', ''WISHES-Z'']),
      (''GPC'', [''PANSTARRS-I'']),
      (''MEGACAM'', [''CFIS-U'', ''CFIS-R''])]"

definition request_bands :: "string option list" where
  "request_bands = None # map Some (concat (map snd band_map))"

text \<open>Python's formatting of the floats used in the examples.\<close>

definition example_repr :: "pyfloat \<Rightarrow> string" where
  "example_repr x =
     (if x = Number (21 / 2) then ''10.5''
      else if x = Number (81 / 4) then ''20.25''
      else if x = Minus_zero then ''-0.0''
      else ''0.0'')"

section \<open>The result cache of \<open>process_task\<close> (legacy/Euclid_flash_app.py)\<close>

text \<open>The directories of the module; \<open>app_dir\<close> is \<open>os.path.dirname(__file__)\<close>.\<close>

definition PERMANENT_DOWNLOAD_DIR :: string where
  "PERMANENT_DOWNLOAD_DIR = ''/home/aaron/tmp/Euclid_download/''"

definition CACHE_DIR :: "string \<Rightarrow> string" where
  "CACHE_DIR app_dir = path_join app_dir ''cache''"

definition TMP_DIR :: "string \<Rightarrow> string" where
  "TMP_DIR app_dir = path_join app_dir ''tmp''"

text \<open>The task configuration built by \<open>submit_task\<close> (it always has the key
  \<open>band\<close>, whose value may be \<open>None\<close>) and one row of the catalog.\<close>

record task_config =
  cfg_file_types :: "string list"
  cfg_instruments :: "string list"
  cfg_band :: "string option"
  cfg_size :: int

text \<open>
  The value of the target id column in a row: an integer or a string.  \<open>str_id\<close> is
  \<open>str(target_id)\<close>, \<open>truthy_id\<close> its truth value (\<open>0\<close> and \<open>''\<close> are
  falsy).  Masked values are not modelled.
\<close>

datatype py_id = Id_int int | Id_str string

definition str_id :: "py_id \<Rightarrow> string" where
  "str_id target_id = (case target_id of Id_int i \<Rightarrow> str_int i | Id_str s \<Rightarrow> s)"

definition truthy_id :: "py_id \<Rightarrow> bool" where
  "truthy_id target_id = (case target_id of Id_int i \<Rightarrow> i \<noteq> 0 | Id_str s \<Rightarrow> s \<noteq> [])"

record catalog_source =
  src_ra :: pyfloat
  src_dec :: pyfloat
  src_target_id :: py_id

text \<open>\<open>str.upper\<close> on ASCII letters.\<close>

definition upper_char :: "char \<Rightarrow> char" where
  "upper_char c =
     (case map_of (zip ''abcdefghijklmnopqrstuvwxyz'' ''ABCDEFGHIJKLMNOPQRSTUVWXYZ'') c of
        None \<Rightarrow> c
      | Some u \<Rightarrow> u)"

text \<open>
  \<open>build_unified_filename\<close>.  \<open>radec\<close> is the pair of the optional arguments
  \<open>ra\<close> and \<open>dec\<close> (\<open>None\<close> when the call omits them); \<open>fmt8\<close> is the
  formatting \<open>f"{x:.8f}"\<close> of a float.  The test \<open>not target_id\<close> is on the value
  passed, so the integer \<open>0\<close> counts as no target id.
\<close>

definition build_unified_filename ::
  "(pyfloat \<Rightarrow> string) \<Rightarrow> py_id \<Rightarrow> string \<Rightarrow> string \<Rightarrow> string
     \<Rightarrow> (pyfloat \<times> pyfloat) option \<Rightarrow> string" where
  "build_unified_filename fmt8 target_id file_type instrument band radec =
     (let file_type_clean = map (\<lambda>c. if c = CHR ''-'' then CHR ''_'' else c) file_type;
          instrument_clean = map upper_char instrument;
          band_clean = (if band = [] then ''VIS'' else map upper_char band);
          strip = filter (\<lambda>c. c \<noteq> CHR ''.'' \<and> c \<noteq> CHR ''-'');
          target =
            (if \<not> truthy_id target_id
             then (case radec of
                     Some (ra, dec) \<Rightarrow>
                       ''RA_'' @ strip (fmt8 ra) @ ''_Dec_'' @ strip (fmt8 dec)
                   | None \<Rightarrow> ''unknown'')
             else str_id target_id)
      in if band_clean = ''VIS''
         then target @ ''_'' @ instrument_clean @ ''_'' @ file_type_clean @ ''.fits''
         else target @ ''_'' @ instrument_clean @ ''_'' @ file_type_clean @ ''_''
                @ band_clean @ ''.fits'')"

text \<open>
  The cache check of lines 816 to 846: for every source, instrument and file type the
  file \<open>CACHE_DIR/instrument/file_type/key.fits\<close> is looked up; a hit goes to
  \<open>cached_sources_info\<close>, a miss to \<open>sources_to_process\<close>.  The file system is the
  set of the paths of its files.  The scan of the band directories before the check
  (lines 718 to 812) only fills \<open>permanent_cached_files\<close>: it takes nothing out of
  \<open>sources_to_process\<close>, and its branch that appends to it is never taken, since
  every file it records has the requested band.
\<close>

definition cache_file ::
  "(pyfloat \<Rightarrow> string) \<Rightarrow> string \<Rightarrow> task_config \<Rightarrow> catalog_source \<Rightarrow> string \<Rightarrow> string \<Rightarrow> string"
  where
  "cache_file float_str app_dir config source instrument file_type =
     path_join (path_join (path_join (CACHE_DIR app_dir) instrument) file_type)
       (generate_source_cache_key float_str (src_ra source) (src_dec source)
          (cfg_size config) instrument file_type (cfg_band config) @ ''.fits'')"

definition work_items :: "task_config \<Rightarrow> catalog_source list \<Rightarrow> (nat \<times> string \<times> string) list"
  where
  "work_items config catalog =
     concat (map (\<lambda>i.
        concat (map (\<lambda>instrument.
           map (\<lambda>file_type. (i, instrument, file_type)) (cfg_file_types config))
         (cfg_instruments config)))
      [0 ..< length catalog])"

definition cached_sources_info ::
  "(pyfloat \<Rightarrow> string) \<Rightarrow> string \<Rightarrow> task_config \<Rightarrow> catalog_source list \<Rightarrow> string set
     \<Rightarrow> (nat \<times> string \<times> string) list" where
  "cached_sources_info float_str app_dir config catalog fs =
     filter (\<lambda>(i, instrument, file_type).
        cache_file float_str app_dir config (catalog ! i) instrument file_type \<in> fs)
       (work_items config catalog)"

definition sources_to_process ::
  "(pyfloat \<Rightarrow> string) \<Rightarrow> string \<Rightarrow> task_config \<Rightarrow> catalog_source list \<Rightarrow> string set
     \<Rightarrow> (nat \<times> string \<times> string) list" where
  "sources_to_process float_str app_dir config catalog fs =
     filter (\<lambda>(i, instrument, file_type).
        cache_file float_str app_dir config (catalog ! i) instrument file_type \<notin> fs)
       (work_items config catalog)"

text \<open>
  The band of a produced file (lines 961 to 1017): the first band name found in a part
  of the file name, else the \<open>BAND\<close> card of the file, else \<open>VIS\<close>.
\<close>

definition all_bands :: "string list" where
  "all_bands =
     [''VIS'', ''NIR-Y'', ''NIR-J'', ''NIR-H'', ''DES-G'', ''DES-R'', ''DES-I'', ''DES-Z'']"

definition file_band_of :: "string \<Rightarrow> string option \<Rightarrow> string" where
  "file_band_of match_file header_band =
     (case concat (map (\<lambda>part. filter (\<lambda>b. sublist b part) all_bands)
                     (str_split ''_'' match_file)) of
        b # bs \<Rightarrow> b
      | [] \<Rightarrow> (case header_band of
                 None \<Rightarrow> ''VIS''
               | Some b \<Rightarrow> if b = [] then ''VIS'' else b))"

text \<open>
  The three copies of a produced file (lines 1024 to 1047): the directory of the task
  under the permanent directory, the output directory of the task under \<open>TMP_DIR\<close>,
  and the band directory of the permanent directory.
\<close>

definition persist_paths :: "string \<Rightarrow> string \<Rightarrow> string \<Rightarrow> string \<Rightarrow> string list" where
  "persist_paths app_dir task_id file_band output_filename =
     [path_join (path_join (path_join PERMANENT_DOWNLOAD_DIR task_id) file_band)
        output_filename,
      path_join (path_join (path_join (TMP_DIR app_dir) task_id) file_band)
        output_filename,
      path_join (path_join PERMANENT_DOWNLOAD_DIR file_band) output_filename]"

text \<open>
  The files that \<open>process_catalog\<close> leaves in \<open>temp_process_dir/file_type\<close>:
  \<open>obj_id.fits\<close> for every processed source whose extraction of that file type
  succeeded and passed the invalid-value policy (\<open>extracted i file_type\<close>).  The
  catalog has a target id column, so \<open>obj_id\<close> is \<open>str\<close> of the target id of the
  source.
\<close>

definition produced_files ::
  "(nat \<Rightarrow> string \<Rightarrow> bool) \<Rightarrow> catalog_source list \<Rightarrow> (nat \<times> string \<times> string) list
     \<Rightarrow> string \<Rightarrow> string list" where
  "produced_files extracted catalog to_process file_type =
     map (\<lambda>i. str_id (src_target_id (catalog ! i)) @ ''.fits'')
       (filter (\<lambda>i. extracted i file_type) (remdups (map fst to_process)))"

text \<open>
  The paths written for the newly processed sources (the loop of lines 903 to 1054): for
  every source of the catalog and every file type, each produced file whose name
  contains \<open>str(target_id)\<close> is copied three times, under the name that
  \<open>build_unified_filename\<close> makes from the target id as the row has it.  The
  \<open>BAND\<close> card of a produced file is the requested band, the only band that the
  extraction was asked for.  The second match, by the patterns \<open>ra_...\<close> and
  \<open>dec_...\<close>, is left out: the produced files are named by target ids.
\<close>

definition new_file_paths ::
  "(pyfloat \<Rightarrow> string) \<Rightarrow> string \<Rightarrow> (nat \<Rightarrow> string \<Rightarrow> bool) \<Rightarrow> string \<Rightarrow> task_config
     \<Rightarrow> catalog_source list \<Rightarrow> (nat \<times> string \<times> string) list \<Rightarrow> string list" where
  "new_file_paths fmt8 app_dir extracted task_id config catalog to_process =
     concat (map (\<lambda>source.
        concat (map (\<lambda>file_type.
           concat (map (\<lambda>match_file.
              persist_paths app_dir task_id
                (file_band_of match_file (cfg_band config))
                (build_unified_filename fmt8 (src_target_id source) file_type
                   (hd (cfg_instruments config))
                   (file_band_of match_file (cfg_band config))
                   (Some (src_ra source, src_dec source))))
            (filter (\<lambda>f. sublist (str_id (src_target_id source)) f)
               (produced_files extracted catalog to_process file_type))))
         (cfg_file_types config)))
      catalog)"

text \<open>\<open>os.path.basename\<close>.\<close>

definition path_basename :: "string \<Rightarrow> string" where
  "path_basename p = rev (takeWhile (\<lambda>c. c \<noteq> CHR ''/'') (rev p))"

text \<open>
  The body of the \<open>try\<close> block of the loop over the hits of the cache check (lines
  1158 to 1276), for one hit.  \<open>cache_filename\<close> is bound only inside
  \<open>if not file_band\<close>, that is when no band was requested, and line 1245 formats it
  in every case: with a requested band the statement raises UnboundLocalError before any
  copy.  Without one, the band is the one found in the name of the cache file (the
  \<open>BAND\<close> card of the file being the requested band, here none), and the file is
  copied three times under a name built from \<open>cache_info['target_id']\<close>, a string,
  without \<open>ra\<close> and \<open>dec\<close>.
\<close>

definition copy_cached_file ::
  "(pyfloat \<Rightarrow> string) \<Rightarrow> (pyfloat \<Rightarrow> string) \<Rightarrow> string \<Rightarrow> string \<Rightarrow> task_config
     \<Rightarrow> catalog_source list \<Rightarrow> nat \<times> string \<times> string \<Rightarrow> py_error + string list" where
  "copy_cached_file float_str fmt8 app_dir task_id config catalog hit =
     (case hit of (i, instrument, file_type) \<Rightarrow>
        if (case cfg_band config of None \<Rightarrow> False | Some b \<Rightarrow> b \<noteq> [])
        then Inl UnboundLocalError
        else
          let cache_filename =
                path_basename
                  (cache_file float_str app_dir config (catalog ! i) instrument file_type);
              file_band = file_band_of cache_filename None
          in Inr (persist_paths app_dir task_id file_band
                    (build_unified_filename fmt8
                       (Id_str (str_id (src_target_id (catalog ! i)))) file_type
                       instrument file_band None)))"

text \<open>The loop: \<open>except Exception\<close> logs the error and goes on to the next hit.\<close>

definition cached_file_paths ::
  "(pyfloat \<Rightarrow> string) \<Rightarrow> (pyfloat \<Rightarrow> string) \<Rightarrow> string \<Rightarrow> string \<Rightarrow> task_config
     \<Rightarrow> catalog_source list \<Rightarrow> (nat \<times> string \<times> string) list \<Rightarrow> string list" where
  "cached_file_paths float_str fmt8 app_dir task_id config catalog cached =
     concat (map (\<lambda>hit.
        case copy_cached_file float_str fmt8 app_dir task_id config catalog hit of
          Inl e \<Rightarrow> []
        | Inr paths \<Rightarrow> paths)
      cached)"

text \<open>
  One run of \<open>process_task\<close>, as far as the caches go: the cache check, the extraction
  of the misses by \<open>process_catalog\<close> (when there is a miss), the copies, and the
  removal of the output directory of the task at the end.  The result is the file system
  after the run, the hits and the misses; the misses are what the run extracts.  The
  other writes of the function (the copies of the hits of the band directories, the
  archive of the results, the copy of the catalog) go to the directory of the task and
  to the band directories of the permanent directory and are left out.
\<close>

definition process_task ::
  "(pyfloat \<Rightarrow> string) \<Rightarrow> (pyfloat \<Rightarrow> string) \<Rightarrow> string \<Rightarrow> (nat \<Rightarrow> string \<Rightarrow> bool) \<Rightarrow> string
     \<Rightarrow> task_config \<Rightarrow> catalog_source list \<Rightarrow> string set
     \<Rightarrow> string set \<times> (nat \<times> string \<times> string) list \<times> (nat \<times> string \<times> string) list"
  where
  "process_task float_str fmt8 app_dir extracted task_id config catalog fs =
     (let cached = cached_sources_info float_str app_dir config catalog fs;
          to_process = sources_to_process float_str app_dir config catalog fs;
          written = new_file_paths fmt8 app_dir extracted task_id config catalog to_process
                    @ cached_file_paths float_str fmt8 app_dir task_id config catalog
                        cached;
          task_output_dir = path_join (TMP_DIR app_dir) task_id
      in ((fs \<union> set written) - {p. prefix (task_output_dir @ ''/'') p}, cached, to_process))"

text \<open>One source, one instrument, one product type, one band.\<close>

definition example_config :: task_config where
  "example_config =
     \<lparr>cfg_file_types = [''BGSUB''], cfg_instruments = [''VIS''], cfg_band = Some ''VIS'',
      cfg_size = 128\<rparr>"

definition example_catalog :: "catalog_source list" where
  "example_catalog =
     [\<lparr>src_ra = Number (21 / 2), src_dec = Number (81 / 4), src_target_id = Id_int 42\<rparr>]"

definition after_first_task :: "string set" where
  "after_first_task =
     fst (process_task example_repr example_repr ''/srv/app'' (\<lambda>i file_type. True)
            ''task-1'' example_config example_catalog {})"

section \<open>The task registry (core/task_processor.py, core/task_executor.py)\<close>

text \<open>The values of the enumeration \<open>TaskStatus\<close> of models/task.py.\<close>

definition TaskStatus :: "string list" where
  "TaskStatus = [''queued'', ''processing'', ''completed'', ''failed'', ''cancelled'']"

text \<open>An entry of the dictionary \<open>tasks\<close>: the keys that the status surface shows.\<close>

record task =
  task_status :: string
  task_progress :: "int option"
  task_message :: "string option"

type_synonym registry = "string \<rightharpoonup> task"

text \<open>
  \<open>TaskProcessor.create_task\<close>, with the identifier that \<open>uuid.uuid4()\<close> returned:
  the entry is stored, then the executor thread is started.  The message is a Chinese
  sentence ("task created, waiting to be processed").
\<close>

definition create_task :: "string \<Rightarrow> registry \<Rightarrow> registry" where
  "create_task task_id tasks =
     tasks(task_id \<mapsto> \<lparr>task_status = ''pending'', task_progress = Some 0,
                         task_message = Some ''task created''\<rparr>)"

text \<open>The registration of \<open>submit_task\<close> in legacy/Euclid_flash_app.py.\<close>

definition submit_task :: "string \<Rightarrow> registry \<Rightarrow> registry" where
  "submit_task task_id tasks =
     tasks(task_id \<mapsto> \<lparr>task_status = ''queued'', task_progress = None,
                         task_message = None\<rparr>)"

definition get_task_status :: "string \<Rightarrow> registry \<Rightarrow> task option" where
  "get_task_status task_id tasks = tasks task_id"

text \<open>
  \<open>TaskExecutor._update_status\<close>: the status is overwritten whatever it was; an
  empty message is not stored.  \<open>self.tasks[self.task_id]\<close> raises KeyError for an
  unknown task.
\<close>

definition update_status ::
  "string \<Rightarrow> string \<Rightarrow> int option \<Rightarrow> string option \<Rightarrow> registry \<Rightarrow> py_error + registry" where
  "update_status task_id status progress message tasks =
     (case tasks task_id of
        None \<Rightarrow> Inl KeyError
      | Some t \<Rightarrow>
          let t1 = t\<lparr>task_status := status\<rparr>;
              t2 = (case progress of None \<Rightarrow> t1 | Some p \<Rightarrow> t1\<lparr>task_progress := Some p\<rparr>);
              t3 = (case message of
                      None \<Rightarrow> t2
                    | Some m \<Rightarrow> if m = [] then t2 else t2\<lparr>task_message := Some m\<rparr>)
          in Inr (tasks(task_id \<mapsto> t3)))"

text \<open>
  \<open>TaskProcessor.cancel_task\<close>: refused for an unknown, a completed and a failed
  task; otherwise the status becomes \<open>cancelled\<close> ("marked as cancelled, the
  processing may go on", says its docstring).
\<close>

definition cancel_task :: "string \<Rightarrow> registry \<Rightarrow> bool \<times> registry" where
  "cancel_task task_id tasks =
     (case tasks task_id of
        None \<Rightarrow> (False, tasks)
      | Some t \<Rightarrow>
          if task_status t \<in> set [''completed'', ''failed''] then (False, tasks)
          else (True, tasks(task_id \<mapsto> t\<lparr>task_status := ''cancelled'',
                                            task_message := Some ''task cancelled''\<rparr>)))"

text \<open>
  What happens to the entry of a task after its creation.  The executor thread makes the
  calls of \<open>TaskExecutor.execute\<close>: \<open>_update_status('processing', progress=0)\<close>
  (\<open>Begin\<close>), \<open>_update_status('processing', message=...)\<close> for a truncated catalog
  (\<open>Truncated\<close>), the direct write of \<open>_check_cached_result\<close> (\<open>CachedResult\<close>),
  \<open>_update_status('completed', progress=100)\<close> (\<open>Done\<close>) and
  \<open>_update_status('failed', message=...)\<close> (\<open>Fail\<close>); a request thread calls
  \<open>cancel_task\<close> (\<open>Cancel\<close>).  Every one of them holds the lock while it changes
  the entry, so a run is a sequence of these operations.
\<close>

datatype registry_op =
    Begin
  | Truncated string
  | CachedResult
  | Done
  | Fail string
  | Cancel

definition apply_op :: "string \<Rightarrow> registry_op \<Rightarrow> registry \<Rightarrow> py_error + registry" where
  "apply_op task_id op tasks =
     (case op of
        Begin \<Rightarrow> update_status task_id ''processing'' (Some 0) None tasks
      | Truncated m \<Rightarrow> update_status task_id ''processing'' None (Some m) tasks
      | CachedResult \<Rightarrow>
          (case tasks task_id of
             None \<Rightarrow> Inl KeyError
           | Some t \<Rightarrow>
               Inr (tasks(task_id \<mapsto> t\<lparr>task_status := ''completed'',
                                           task_message := Some ''cached result'',
                                           task_progress := Some 100\<rparr>)))
      | Done \<Rightarrow> update_status task_id ''completed'' (Some 100) None tasks
      | Fail m \<Rightarrow> update_status task_id ''failed'' None (Some m) tasks
      | Cancel \<Rightarrow> Inr (snd (cancel_task task_id tasks)))"

fun apply_ops :: "string \<Rightarrow> registry_op list \<Rightarrow> registry \<Rightarrow> py_error + registry" where
  "apply_ops task_id [] tasks = Inr tasks"
| "apply_ops task_id (op # ops) tasks =
     (case apply_op task_id op tasks of
        Inl e \<Rightarrow> Inl e
      | Inr tasks' \<Rightarrow> apply_ops task_id ops tasks')"

definition status_of :: "string \<Rightarrow> py_error + registry \<Rightarrow> string option" where
  "status_of task_id r =
     (case r of Inl e \<Rightarrow> None | Inr tasks \<Rightarrow> map_option task_status (tasks task_id))"

definition status_in :: "string list \<Rightarrow> string \<Rightarrow> registry \<Rightarrow> bool" where
  "status_in allowed task_id tasks =
     (case tasks task_id of None \<Rightarrow> False | Some t \<Rightarrow> task_status t \<in> set allowed)"

chapter \<open>Properties\<close>

section \<open>Properties of the batch statistics\<close>

lemma errors_capped_init: "errors_capped (init_stats file_types)"
  by (simp add: errors_capped_def init_stats_def)

lemma errors_capped_upd:
  "errors_capped st \<Longrightarrow> length (errors s) \<le> 10 \<Longrightarrow> errors_capped (st(ft \<mapsto> s))"
  by (simp add: errors_capped_def)

lemma errors_capped_get:
  "errors_capped st \<Longrightarrow> st ft = Some s \<Longrightarrow> length (errors s) \<le> 10"
  by (simp add: errors_capped_def)

lemma record_results_capped:
  "errors_capped st \<Longrightarrow> sum_all errors_capped (record_results verbose obj_id results st)"
proof (induction results arbitrary: st)
  case Nil
  then show ?case by (simp add: sum_all_def)
next
  case (Cons p rest)
  obtain file_type status where p: "p = (file_type, status)" by (cases p)
  show ?case
  proof (cases "st file_type")
    case None
    with Cons.prems p show ?thesis by (simp add: sum_all_def)
  next
    case (Some s)
    have len: "length (errors s) \<le> 10"
      using errors_capped_get [OF Cons.prems Some] .
    show ?thesis
    proof (cases "status = ''success''")
      case True
      have "errors_capped (st(file_type \<mapsto> s\<lparr>success := success s + 1\<rparr>))"
        using Cons.prems len by (intro errors_capped_upd) simp_all
      then have "sum_all errors_capped (record_results verbose obj_id rest
           (st(file_type \<mapsto> s\<lparr>success := success s + 1\<rparr>)))"
        by (rule Cons.IH)
      then show ?thesis by (simp add: p Some True)
    next
      case False
      define s2 where "s2 = (if verbose \<and> length (errors s) < 10
          then s\<lparr>failed := failed s + 1, errors := errors s @ [obj_id @ '': '' @ status]\<rparr>
          else s\<lparr>failed := failed s + 1\<rparr>)"
      have "length (errors s2) \<le> 10"
        using len by (auto simp: s2_def)
      then have "errors_capped (st(file_type \<mapsto> s2))"
        using Cons.prems by (intro errors_capped_upd)
      then have "sum_all errors_capped
          (record_results verbose obj_id rest (st(file_type \<mapsto> s2)))"
        by (rule Cons.IH)
      then show ?thesis
        by (auto simp add: p Some False s2_def Let_def split: if_splits)
    qed
  qed
qed

lemma mark_all_failed_capped:
  "errors_capped st \<Longrightarrow> mark_all_failed file_types st = Inr st' \<Longrightarrow> errors_capped st'"
proof (induction file_types arbitrary: st)
  case Nil
  then show ?case by simp
next
  case (Cons ft rest)
  from Cons.prems(2) obtain s where s: "st ft = Some s"
    by (cases "st ft") auto
  have cap: "errors_capped (st(ft \<mapsto> s\<lparr>failed := failed s + 1\<rparr>))"
    using Cons.prems(1) errors_capped_get [OF Cons.prems(1) s]
    by (intro errors_capped_upd) simp_all
  have "mark_all_failed rest (st(ft \<mapsto> s\<lparr>failed := failed s + 1\<rparr>)) = Inr st'"
    using Cons.prems(2) s by simp
  with cap show ?case by (rule Cons.IH)
qed

lemma record_source_capped:
  assumes "errors_capped st"
    and "record_source verbose file_types outcome st = Inr st'"
  shows "errors_capped st'"
proof (cases outcome)
  case Raised
  with assms(2) have "mark_all_failed file_types st = Inr st'"
    by (simp add: record_source_def)
  with assms(1) show ?thesis by (rule mark_all_failed_capped)
next
  case (Returned obj_id results)
  have c: "sum_all errors_capped (record_results verbose obj_id results st)"
    using assms(1) by (rule record_results_capped)
  show ?thesis
  proof (cases "record_results verbose obj_id results st")
    case (Inl st1)
    with c have "errors_capped st1" by (simp add: sum_all_def)
    moreover have "mark_all_failed file_types st1 = Inr st'"
      using assms(2) Returned Inl by (simp add: record_source_def)
    ultimately show ?thesis by (rule mark_all_failed_capped)
  next
    case (Inr st1)
    with c have "errors_capped st1" by (simp add: sum_all_def)
    moreover have "st1 = st'"
      using assms(2) Returned Inr by (simp add: record_source_def)
    ultimately show ?thesis by simp
  qed
qed

lemma record_sources_capped:
  "errors_capped st \<Longrightarrow> record_sources verbose file_types outcomes st = Inr st' \<Longrightarrow>
     errors_capped st'"
proof (induction outcomes arbitrary: st)
  case Nil
  then show ?case by simp
next
  case (Cons outcome rest)
  from Cons.prems(2) obtain st1 where
    st1: "record_source verbose file_types outcome st = Inr st1"
    and rest: "record_sources verbose file_types rest st1 = Inr st'"
    by (cases "record_source verbose file_types outcome st") auto
  have "errors_capped st1"
    using Cons.prems(1) st1 by (rule record_source_capped)
  then show ?case using rest by (rule Cons.IH)
qed

text \<open>The keys of the dictionary never change, so the handler never raises.\<close>

lemma record_results_dom:
  "sum_all (\<lambda>st'. dom st' = dom st) (record_results verbose obj_id results st)"
proof (induction results arbitrary: st)
  case Nil
  then show ?case by (simp add: sum_all_def)
next
  case (Cons p rest)
  obtain file_type status where p: "p = (file_type, status)" by (cases p)
  show ?case
  proof (cases "st file_type")
    case None
    with p show ?thesis by (simp add: sum_all_def)
  next
    case (Some s)
    then have d: "\<And>v. dom (st(file_type \<mapsto> v)) = dom st" by auto
    show ?thesis
    proof (cases "status = ''success''")
      case True
      have "sum_all
          (\<lambda>st'. dom st' = dom (st(file_type \<mapsto> s\<lparr>success := success s + 1\<rparr>)))
          (record_results verbose obj_id rest
             (st(file_type \<mapsto> s\<lparr>success := success s + 1\<rparr>)))"
        by (rule Cons.IH)
      then show ?thesis unfolding d by (simp add: p Some True)
    next
      case False
      define s2 where "s2 = (if verbose \<and> length (errors s) < 10
          then s\<lparr>failed := failed s + 1, errors := errors s @ [obj_id @ '': '' @ status]\<rparr>
          else s\<lparr>failed := failed s + 1\<rparr>)"
      have "sum_all (\<lambda>st'. dom st' = dom (st(file_type \<mapsto> s2)))
          (record_results verbose obj_id rest (st(file_type \<mapsto> s2)))"
        by (rule Cons.IH)
      then show ?thesis unfolding d
        by (auto simp add: p Some False s2_def Let_def split: if_splits)
    qed
  qed
qed

lemma mark_all_failed_total:
  "set file_types \<subseteq> dom st \<Longrightarrow>
     \<exists>st'. mark_all_failed file_types st = Inr st' \<and> dom st' = dom st"
proof (induction file_types arbitrary: st)
  case Nil
  then show ?case by simp
next
  case (Cons ft rest)
  then obtain s where s: "st ft = Some s" by auto
  define st1 where "st1 = st(ft \<mapsto> s\<lparr>failed := failed s + 1\<rparr>)"
  have d: "dom st1 = dom st" using s by (auto simp: st1_def)
  with Cons.prems have "set rest \<subseteq> dom st1" by simp
  then obtain st' where "mark_all_failed rest st1 = Inr st'" "dom st' = dom st1"
    using Cons.IH by blast
  then have "mark_all_failed (ft # rest) st = Inr st'" "dom st' = dom st"
    using s d by (simp_all add: st1_def)
  then show ?case by blast
qed

lemma record_source_total:
  assumes "set file_types \<subseteq> dom st"
  shows "\<exists>st'. record_source verbose file_types outcome st = Inr st' \<and> dom st' = dom st"
proof (cases outcome)
  case Raised
  with mark_all_failed_total [OF assms] show ?thesis
    by (simp add: record_source_def)
next
  case (Returned obj_id results)
  have c: "sum_all (\<lambda>st'. dom st' = dom st) (record_results verbose obj_id results st)"
    by (rule record_results_dom)
  show ?thesis
  proof (cases "record_results verbose obj_id results st")
    case (Inl st1)
    with c have d: "dom st1 = dom st" by (simp add: sum_all_def)
    with assms have "set file_types \<subseteq> dom st1" by simp
    then obtain st' where "mark_all_failed file_types st1 = Inr st'" "dom st' = dom st1"
      using mark_all_failed_total by blast
    with d Returned Inl show ?thesis
      by (simp add: record_source_def)
  next
    case (Inr st1)
    with c have "dom st1 = dom st" by (simp add: sum_all_def)
    with Returned Inr show ?thesis
      by (simp add: record_source_def)
  qed
qed

lemma record_sources_total:
  "set file_types \<subseteq> dom st \<Longrightarrow>
     \<exists>st'. record_sources verbose file_types outcomes st = Inr st'"
proof (induction outcomes arbitrary: st)
  case Nil
  then show ?case by simp
next
  case (Cons outcome rest)
  from record_source_total [OF Cons.prems, of verbose outcome] obtain st1 where
    st1: "record_source verbose file_types outcome st = Inr st1" "dom st1 = dom st"
    by blast
  with Cons.prems have "set file_types \<subseteq> dom st1" by simp
  then obtain st' where "record_sources verbose file_types rest st1 = Inr st'"
    using Cons.IH by blast
  with st1 show ?case by simp
qed

lemma dom_init_stats: "dom (init_stats file_types) = set file_types"
  by (auto simp: init_stats_def dom_def)

text \<open>
  Claim C9.  Once the catalog has the two position columns, \<open>process_catalog\<close> returns
  its statistics, and in them the \<open>errors\<close> list of every file type has at most 10
  entries, however many sources fail.  The statement holds for every list of outcomes,
  hence for every prefix of a run and for every completion order of the parallel branch.
\<close>

theorem process_catalog_errors_bounded:
  assumes "ra_col \<in> set colnames" and "dec_col \<in> set colnames"
  shows "\<exists>st. process_catalog colnames ra_col dec_col verbose file_types outcomes = Inr st
           \<and> (\<forall>ft s. st ft = Some s \<longrightarrow> length (errors s) \<le> 10)"
proof -
  have "set file_types \<subseteq> dom (init_stats file_types)"
    by (simp add: dom_init_stats)
  then obtain st where
    st: "record_sources verbose file_types outcomes (init_stats file_types) = Inr st"
    using record_sources_total by blast
  have "errors_capped st"
    using errors_capped_init st by (rule record_sources_capped)
  then have "\<forall>ft s. st ft = Some s \<longrightarrow> length (errors s) \<le> 10"
    by (simp add: errors_capped_def)
  with st assms show ?thesis by (simp add: process_catalog_def)
qed

theorem process_catalog_errors_bounded_witness:
  "''RA'' \<in> set [''RA'', ''DEC''] \<and> ''DEC'' \<in> set [''RA'', ''DEC''] \<and>
   (\<exists>st s. process_catalog [''RA'', ''DEC''] ''RA'' ''DEC'' True [''BGSUB'']
               (replicate 11 (Returned ''s'' [(''BGSUB'', ''no_tile'')])) = Inr st
           \<and> st ''BGSUB'' = Some s \<and> failed s = 11 \<and> length (errors s) \<le> 10)"
proof -
  have ra: "''RA'' \<in> set [''RA'', ''DEC'']" and dec: "''DEC'' \<in> set [''RA'', ''DEC'']"
    by simp_all
  from process_catalog_errors_bounded [OF ra dec, of True "[''BGSUB'']"
      "replicate 11 (Returned ''s'' [(''BGSUB'', ''no_tile'')])"]
  obtain st where
    st: "process_catalog [''RA'', ''DEC''] ''RA'' ''DEC'' True [''BGSUB'']
           (replicate 11 (Returned ''s'' [(''BGSUB'', ''no_tile'')])) = Inr st"
    and cap: "\<forall>ft s. st ft = Some s \<longrightarrow> length (errors s) \<le> 10"
    by blast
  have "map_option failed (st ''BGSUB'') = Some 11"
    using st
    by (auto simp add: process_catalog_def init_stats_def record_source_def numeral_eq_Suc)
  then obtain s where s: "st ''BGSUB'' = Some s" "failed s = 11" by auto
  with cap have "length (errors s) \<le> 10" by blast
  with st s ra dec show ?thesis by blast
qed

section \<open>Properties of the string functions\<close>

lemma str_split_nonempty: "str_split sep s \<noteq> []"
  by (induction sep s rule: str_split.induct) (auto split: list.splits)

lemma str_join_split: "sep \<noteq> [] \<Longrightarrow> str_join sep (str_split sep s) = s"
proof (induction sep s rule: str_split.induct)
  case (1 sep)
  then show ?case by simp
next
  case (2 sep c cs)
  show ?case
  proof (cases "prefix sep (c # cs)")
    case True
    then obtain r where r: "c # cs = sep @ r" by (auto simp: prefix_def)
    have d: "drop (length sep - 1) cs = r" using r "2.prems" by (cases sep) auto
    have ih: "str_join sep (str_split sep r) = r"
      using "2.IH"(1) [OF True "2.prems"] d by simp
    obtain p ps where pp: "str_split sep r = p # ps"
      using str_split_nonempty by (cases "str_split sep r") auto
    have "str_split sep (c # cs) = [] # p # ps"
      using True d pp by simp
    then have "str_join sep (str_split sep (c # cs)) = sep @ str_join sep (p # ps)"
      by simp
    also have "\<dots> = sep @ r" using ih pp by simp
    finally show ?thesis using r by simp
  next
    case False
    obtain p ps where pp: "str_split sep cs = p # ps"
      using str_split_nonempty by (cases "str_split sep cs") auto
    have "str_join sep (p # ps) = cs"
      using "2.IH"(2) [OF False "2.prems"] pp by simp
    then show ?thesis using False pp by (cases ps) auto
  qed
qed

lemma str_split_no_sep: "c \<notin> set s \<Longrightarrow> str_split [c] s = [s]"
  by (induction s) (auto simp: prefix_Cons)

lemma hd_str_split_char: "hd (str_split [c] s) = takeWhile (\<lambda>x. x \<noteq> c) s"
proof (induction s)
  case Nil
  then show ?case by simp
next
  case (Cons a s)
  obtain p ps where pp: "str_split [c] s = p # ps"
    using str_split_nonempty by (cases "str_split [c] s") auto
  with Cons show ?case by (auto simp: prefix_Cons)
qed

lemma length_str_split_char: "c \<in> set s \<Longrightarrow> 2 \<le> length (str_split [c] s)"
proof (induction s)
  case Nil
  then show ?case by simp
next
  case (Cons a s)
  show ?case
  proof (cases "a = c")
    case True
    obtain p ps where pp: "str_split [c] s = p # ps"
      using str_split_nonempty by (cases "str_split [c] s") auto
    with True show ?thesis by (simp add: prefix_Cons)
  next
    case False
    with Cons.prems have "c \<in> set s" by simp
    then have l: "2 \<le> length (str_split [c] s)" by (rule Cons.IH)
    then obtain p ps where pp: "str_split [c] s = p # ps"
      by (cases "str_split [c] s") auto
    with l False show ?thesis by (simp add: prefix_Cons)
  qed
qed

lemma str_join_hd_tl:
  "2 \<le> length ps \<Longrightarrow> str_join sep ps = hd ps @ sep @ str_join sep (tl ps)"
  by (cases ps; cases "tl ps") auto

section \<open>Properties of \<open>_parse_filename\<close>\<close>

text \<open>
  Claim C4.  \<open>_parse_filename\<close> always returns a pair.  With \<open>tok\<close> the token left
  after stripping the product-type pattern and the \<open>_TILE\<close> suffix: if \<open>tok\<close> has no
  \<open>-\<close>, instrument and band are both \<open>tok\<close>; if it has one, the instrument is the
  first part of \<open>tok.split('-')\<close> and the band is the other parts joined by \<open>-\<close>,
  so that \<open>tok\<close> is instrument, \<open>-\<close>, band, and the instrument has no \<open>-\<close>.
\<close>

theorem parse_filename_instrument_band:
  fixes filename file_type :: string
  defines "tok \<equiv> inst_band filename file_type"
  shows "\<exists>instrument band.
           parse_filename filename file_type = Some (instrument, band)
         \<and> (CHR ''-'' \<notin> set tok \<longrightarrow> instrument = tok \<and> band = tok)
         \<and> (CHR ''-'' \<in> set tok \<longrightarrow>
               instrument = hd (str_split ''-'' tok)
             \<and> band = str_join ''-'' (tl (str_split ''-'' tok))
             \<and> tok = instrument @ ''-'' @ band
             \<and> CHR ''-'' \<notin> set instrument)"
proof (cases "CHR ''-'' \<in> set tok")
  case False
  then have "str_split ''-'' tok = [tok]" by (rule str_split_no_sep)
  with False show ?thesis by (simp add: parse_filename_def tok_def Let_def)
next
  case True
  define parts where "parts = str_split ''-'' tok"
  have len: "2 \<le> length parts"
    unfolding parts_def using True by (rule length_str_split_char)
  then have p: "parse_filename filename file_type
                  = Some (hd parts, str_join ''-'' (tl parts))"
    by (simp add: parse_filename_def tok_def parts_def Let_def)
  have "str_join ''-'' parts = tok"
    unfolding parts_def by (rule str_join_split) simp
  with str_join_hd_tl [OF len, of "''-''"]
  have whole: "tok = hd parts @ ''-'' @ str_join ''-'' (tl parts)" by simp
  have "hd parts = takeWhile (\<lambda>x. x \<noteq> CHR ''-'') tok"
    unfolding parts_def by (rule hd_str_split_char)
  then have nd: "CHR ''-'' \<notin> set (hd parts)"
    by (auto dest: set_takeWhileD)
  show ?thesis
    apply (rule exI [of _ "hd parts"])
    apply (rule exI [of _ "str_join ''-'' (tl parts)"])
    using p whole True nd unfolding parts_def by blast
qed

theorem parse_filename_instrument_band_witness:
  "parse_filename ''EUC_MER_BGSUB-MOSAIC-NIR-Y_TILE102019587-DEDE9D_2024.fits'' ''BGSUB''
     = Some (''NIR'', ''Y'')
   \<and> inst_band ''EUC_MER_BGSUB-MOSAIC-NIR-Y_TILE102019587-DEDE9D_2024.fits'' ''BGSUB''
     = ''NIR-Y''
   \<and> CHR ''-'' \<in> set ''NIR-Y''
   \<and> parse_filename ''EUC_MER_MOSAIC-VIS-RMS_TILE102019587-688F6A_2024.fits'' ''RMS''
     = Some (''VIS'', ''VIS'')
   \<and> CHR ''-'' \<notin> set ''VIS''"
proof -
  let ?f = "''EUC_MER_BGSUB-MOSAIC-NIR-Y_TILE102019587-DEDE9D_2024.fits''"
  let ?g = "''EUC_MER_MOSAIC-VIS-RMS_TILE102019587-688F6A_2024.fits''"
  have tok: "inst_band ?f ''BGSUB'' = ''NIR-Y''"
    by (simp add: inst_band_def get_file_pattern_def)
  have parts: "str_split ''-'' ''NIR-Y'' = [''NIR'', ''Y'']"
    by simp
  from parse_filename_instrument_band [of ?f "''BGSUB''"]
  have a: "parse_filename ?f ''BGSUB'' = Some (''NIR'', ''Y'')"
    unfolding tok parts by auto
  have tok': "inst_band ?g ''RMS'' = ''VIS''"
    by (simp add: inst_band_def)
  from parse_filename_instrument_band [of ?g "''RMS''"]
  have b: "parse_filename ?g ''RMS'' = Some (''VIS'', ''VIS'')"
    unfolding tok' by auto
  from a b tok show ?thesis by simp
qed

section \<open>Properties of \<open>find_files\<close>\<close>

lemma add_fits_files_none:
  "list_all (\<lambda>f. \<not> file_matches file_type bands f) files \<Longrightarrow>
     add_fits_files instrument_dir inst_path file_type bands
       (select_fits_files file_type files) found_files = found_files"
proof (induction files)
  case Nil
  then show ?case by (simp add: select_fits_files_def)
next
  case (Cons f files)
  then have ih: "add_fits_files instrument_dir inst_path file_type bands
       (select_fits_files file_type files) found_files = found_files"
    by simp
  from Cons.prems have nm: "\<not> file_matches file_type bands f" by simp
  show ?case
  proof (cases "sublist (''EUC_MER_'' @ get_file_pattern file_type) f
                  \<and> suffix ''.fits'' f \<and> \<not> sublist ''FINAL-CAT'' f")
    case False
    then have "select_fits_files file_type (f # files) = select_fits_files file_type files"
      by (auto simp: select_fits_files_def)
    with ih show ?thesis by simp
  next
    case True
    then have sel: "select_fits_files file_type (f # files)
                      = f # select_fits_files file_type files"
      by (auto simp: select_fits_files_def)
    from nm True have
      "(case parse_filename f file_type of
            None \<Rightarrow> False
          | Some (file_instrument, file_band) \<Rightarrow>
              (case bands of
                 None \<Rightarrow> True
               | Some bs \<Rightarrow> full_band file_instrument file_band \<in> set bs)) = False"
      by (simp add: file_matches_def)
    then show ?thesis
      unfolding sel using ih by (auto split: option.splits prod.splits)
  qed
qed

lemma scan_instrument_dirs_none:
  "list_all (\<lambda>d. \<not> dir_searched fs mer_dir instruments d
                \<or> (case listdir fs (path_join mer_dir d) of
                      Inl e \<Rightarrow> False
                    | Inr files \<Rightarrow>
                        list_all (\<lambda>f. \<not> file_matches file_type bands f) files)) dirs \<Longrightarrow>
     scan_instrument_dirs fs mer_dir file_type instruments bands dirs found_files
       = Inr found_files"
proof (induction dirs)
  case Nil
  then show ?case by simp
next
  case (Cons d dirs)
  then have ih: "scan_instrument_dirs fs mer_dir file_type instruments bands dirs found_files
       = Inr found_files"
    by simp
  show ?case
  proof (cases "dir_searched fs mer_dir instruments d")
    case False
    with ih show ?thesis
      by (auto simp: dir_searched_def Let_def split: option.splits)
  next
    case True
    with Cons.prems obtain files where
      l: "listdir fs (path_join mer_dir d) = Inr files"
      and nm: "list_all (\<lambda>f. \<not> file_matches file_type bands f) files"
      by (cases "listdir fs (path_join mer_dir d)") auto
    have "add_fits_files d (path_join mer_dir d) file_type bands
            (select_fits_files file_type files) found_files = found_files"
      using nm by (rule add_fits_files_none)
    with True l ih show ?thesis
      by (auto simp: dir_searched_def Let_def split: option.splits)
  qed
qed

text \<open>An exception leaves the scan only when the listing of a searched directory
  raised it, and the first such listing that fails ends the scan with its exception.\<close>

lemma scan_instrument_dirs_error:
  "scan_instrument_dirs fs mer_dir file_type instruments bands dirs found_files = Inl e \<Longrightarrow>
     \<exists>d \<in> set dirs. dir_searched fs mer_dir instruments d
                    \<and> listdir fs (path_join mer_dir d) = Inl e"
proof (induction dirs arbitrary: found_files)
  case Nil
  then show ?case by simp
next
  case (Cons d dirs)
  show ?case
  proof (cases "dir_searched fs mer_dir instruments d
                  \<and> listdir fs (path_join mer_dir d) = Inl e")
    case True
    then show ?thesis by simp
  next
    case False
    with Cons.prems obtain found' where
      "scan_instrument_dirs fs mer_dir file_type instruments bands dirs found' = Inl e"
      by (auto simp: Let_def dir_searched_def split: if_splits sum.splits option.splits)
    then have "\<exists>d \<in> set dirs. dir_searched fs mer_dir instruments d
                    \<and> listdir fs (path_join mer_dir d) = Inl e"
      by (rule Cons.IH)
    then show ?thesis by simp
  qed
qed

lemma scan_instrument_dirs_fails:
  "list_ex (\<lambda>d. dir_searched fs mer_dir instruments d
               \<and> isl (listdir fs (path_join mer_dir d))) dirs \<Longrightarrow>
     \<exists>e. scan_instrument_dirs fs mer_dir file_type instruments bands dirs found_files = Inl e"
proof (induction dirs arbitrary: found_files)
  case Nil
  then show ?case by simp
next
  case (Cons d dirs)
  show ?case
  proof (cases "dir_searched fs mer_dir instruments d")
    case False
    with Cons.prems have
      "list_ex (\<lambda>d. dir_searched fs mer_dir instruments d
                  \<and> isl (listdir fs (path_join mer_dir d))) dirs"
      by simp
    then have "\<exists>e. scan_instrument_dirs fs mer_dir file_type instruments bands dirs
                     found_files = Inl e"
      by (rule Cons.IH)
    with False show ?thesis
      by (auto simp: dir_searched_def Let_def split: option.splits)
  next
    case True
    show ?thesis
    proof (cases "listdir fs (path_join mer_dir d)")
      case (Inl e)
      with True show ?thesis
        by (auto simp: dir_searched_def Let_def split: option.splits)
    next
      case (Inr files)
      with Cons.prems have
        "list_ex (\<lambda>d. dir_searched fs mer_dir instruments d
                    \<and> isl (listdir fs (path_join mer_dir d))) dirs"
        by simp
      then have "\<exists>e. scan_instrument_dirs fs mer_dir file_type instruments bands dirs
                       (add_fits_files d (path_join mer_dir d) file_type bands
                          (select_fits_files file_type files) found_files) = Inl e"
        by (rule Cons.IH)
      with True Inr show ?thesis
        by (auto simp: dir_searched_def Let_def split: option.splits)
    qed
  qed
qed

lemma stat_error_not_exists: "stat fs p = Inl e \<Longrightarrow> \<not> path_exists fs p"
  by (simp add: path_exists_def)

text \<open>
  Claim C6, as the code has it.  \<open>find_files\<close> returns the empty mapping, without
  raising, when the tile directory does not exist and when it is readable and no file
  matches the filters.  It raises exactly when the tile directory exists and a listing
  fails (the listing of the tile directory, or of an instrument directory that is
  searched), and the exception is the one of that listing: this I/O error is never
  turned into a mapping.  An error of \<open>os.stat\<close> on the tile directory is not told
  apart: the directory counts as absent and the result is the empty mapping.
\<close>

theorem find_files_no_data:
  fixes fs :: filesystem and tile_id file_type mer_root :: string
    and instruments bands :: "string list option"
  defines "mer_dir \<equiv> path_join mer_root tile_id"
  defines "r \<equiv> find_files fs tile_id file_type mer_root instruments bands"
  shows "(\<not> path_exists fs mer_dir \<longrightarrow> r = Inr [])
       \<and> (path_exists fs mer_dir
            \<and> no_file_matches fs mer_dir file_type instruments bands \<longrightarrow> r = Inr [])
       \<and> ((\<exists>e. r = Inl e)
            \<longleftrightarrow> path_exists fs mer_dir \<and> listing_fails fs mer_dir instruments)
       \<and> (\<forall>e. r = Inl e \<longrightarrow>
            listdir fs mer_dir = Inl e
            \<or> (\<exists>dirs. listdir fs mer_dir = Inr dirs
                  \<and> (\<exists>d \<in> set dirs. dir_searched fs mer_dir instruments d
                                 \<and> listdir fs (path_join mer_dir d) = Inl e)))
       \<and> ((\<exists>e. stat fs mer_dir = Inl e) \<longrightarrow> r = Inr [])"
proof -
  have absent: "r = Inr []" if "\<not> path_exists fs mer_dir"
    using that by (simp add: r_def find_files_def mer_dir_def)
  have nodata: "r = Inr []"
    if a: "path_exists fs mer_dir \<and> no_file_matches fs mer_dir file_type instruments bands"
  proof -
    from a obtain dirs where l: "listdir fs mer_dir = Inr dirs"
      by (cases "listdir fs mer_dir") (auto simp: no_file_matches_def)
    with a have "scan_instrument_dirs fs mer_dir file_type instruments bands dirs [] = Inr []"
      by (intro scan_instrument_dirs_none) (simp add: no_file_matches_def)
    with a l show ?thesis
      by (simp add: r_def find_files_def mer_dir_def [symmetric])
  qed
  have origin: "listdir fs mer_dir = Inl e
          \<or> (\<exists>dirs. listdir fs mer_dir = Inr dirs
                \<and> (\<exists>d \<in> set dirs. dir_searched fs mer_dir instruments d
                               \<and> listdir fs (path_join mer_dir d) = Inl e))"
    if e: "r = Inl e" for e
  proof (cases "listdir fs mer_dir")
    case (Inl e')
    with e show ?thesis
      by (auto simp: r_def find_files_def mer_dir_def [symmetric] Let_def split: if_splits)
  next
    case (Inr dirs)
    with e have "scan_instrument_dirs fs mer_dir file_type instruments bands dirs [] = Inl e"
      by (auto simp: r_def find_files_def mer_dir_def [symmetric] Let_def split: if_splits)
    then have "\<exists>d \<in> set dirs. dir_searched fs mer_dir instruments d
                    \<and> listdir fs (path_join mer_dir d) = Inl e"
      by (rule scan_instrument_dirs_error)
    with Inr show ?thesis by simp
  qed
  have raised: "path_exists fs mer_dir \<and> listing_fails fs mer_dir instruments"
    if e: "r = Inl e" for e
  proof
    from e show "path_exists fs mer_dir"
      by (auto simp: r_def find_files_def mer_dir_def Let_def split: if_splits)
    from origin [OF e] show "listing_fails fs mer_dir instruments"
      by (fastforce simp: listing_fails_def list_ex_iff)
  qed
  have raises: "\<exists>e. r = Inl e"
    if x: "path_exists fs mer_dir" and f: "listing_fails fs mer_dir instruments"
  proof (cases "listdir fs mer_dir")
    case (Inl e)
    with x have "r = Inl e"
      by (simp add: r_def find_files_def mer_dir_def [symmetric])
    then show ?thesis ..
  next
    case (Inr dirs)
    with f have "list_ex (\<lambda>d. dir_searched fs mer_dir instruments d
                    \<and> isl (listdir fs (path_join mer_dir d))) dirs"
      by (simp add: listing_fails_def)
    then obtain e where
      "scan_instrument_dirs fs mer_dir file_type instruments bands dirs [] = Inl e"
      using scan_instrument_dirs_fails by blast
    with x Inr have "r = Inl e"
      by (simp add: r_def find_files_def mer_dir_def [symmetric])
    then show ?thesis ..
  qed
  have staterr: "r = Inr []" if "\<exists>e. stat fs mer_dir = Inl e"
    using that absent stat_error_not_exists by blast
  from absent nodata raised raises origin staterr show ?thesis by blast
qed

theorem find_files_no_data_witness:
  "\<not> path_exists example_fs (path_join ''/mer'' ''T2'')
   \<and> find_files example_fs ''T2'' ''BGSUB'' ''/mer'' None None = Inr []
   \<and> path_exists example_fs (path_join ''/mer'' ''T1'')
   \<and> no_file_matches example_fs (path_join ''/mer'' ''T1'') ''BGMOD'' None None
   \<and> find_files example_fs ''T1'' ''BGMOD'' ''/mer'' None None = Inr []
   \<and> path_exists example_fs (path_join ''/mer'' ''T3'')
   \<and> listing_fails example_fs (path_join ''/mer'' ''T3'') None
   \<and> listdir example_fs (path_join ''/mer'' ''T3'') = Inl OSError
   \<and> find_files example_fs ''T3'' ''BGSUB'' ''/mer'' None None = Inl OSError
   \<and> path_exists example_fs (path_join ''/mer'' ''T6'')
   \<and> listing_fails example_fs (path_join ''/mer'' ''T6'') (Some [''VIS''])
   \<and> find_files example_fs ''T6'' ''BGSUB'' ''/mer'' (Some [''VIS'']) None = Inl OSError
   \<and> stat example_fs (path_join ''/mer'' ''T4'') = Inl OSError
   \<and> find_files example_fs ''T4'' ''BGSUB'' ''/mer'' None None = Inr []"
proof -
  have j: "path_join ''/mer'' ''T2'' = ''/mer/T2''" "path_join ''/mer'' ''T1'' = ''/mer/T1''"
    "path_join ''/mer'' ''T3'' = ''/mer/T3''" "path_join ''/mer'' ''T4'' = ''/mer/T4''"
    "path_join ''/mer'' ''T6'' = ''/mer/T6''" "path_join ''/mer/T6'' ''VIS'' = ''/mer/T6/VIS''"
    by (simp_all add: path_join_def)
  have h2: "\<not> path_exists example_fs (path_join ''/mer'' ''T2'')"
    by (simp add: j example_fs_def path_exists_def)
  have h1: "path_exists example_fs (path_join ''/mer'' ''T1'')
       \<and> no_file_matches example_fs (path_join ''/mer'' ''T1'') ''BGMOD'' None None"
    unfolding j by code_simp
  have h3: "path_exists example_fs (path_join ''/mer'' ''T3'')
       \<and> listing_fails example_fs (path_join ''/mer'' ''T3'') None"
    by (simp add: j example_fs_def path_exists_def listing_fails_def)
  have l3: "listdir example_fs (path_join ''/mer'' ''T3'') = Inl OSError"
    by (simp add: j example_fs_def)
  have l3': "\<And>dirs. listdir example_fs (path_join ''/mer'' ''T3'') \<noteq> Inr dirs"
    by (simp add: l3)
  have h4: "stat example_fs (path_join ''/mer'' ''T4'') = Inl OSError"
    by (simp add: j example_fs_def)
  have h6: "path_exists example_fs (path_join ''/mer'' ''T6'')
       \<and> listing_fails example_fs (path_join ''/mer'' ''T6'') (Some [''VIS''])"
    by (simp add: j example_fs_def path_exists_def path_isdir_def listing_fails_def
        dir_searched_def)
  have l6: "listdir example_fs (path_join ''/mer'' ''T6'') = Inr [''VIS'']"
    "listdir example_fs (path_join (path_join ''/mer'' ''T6'') ''VIS'') = Inl OSError"
    by (simp_all add: j example_fs_def)
  note t2 = find_files_no_data [of example_fs "''/mer''" "''T2''" "''BGSUB''" None None]
  note t1 = find_files_no_data [of example_fs "''/mer''" "''T1''" "''BGMOD''" None None]
  note t3 = find_files_no_data [of example_fs "''/mer''" "''T3''" "''BGSUB''" None None]
  note t4 = find_files_no_data [of example_fs "''/mer''" "''T4''" "''BGSUB''" None None]
  note t6 = find_files_no_data [of example_fs "''/mer''" "''T6''" "''BGSUB''"
      "Some [''VIS'']" None]
  from t2 h2 have r2: "find_files example_fs ''T2'' ''BGSUB'' ''/mer'' None None = Inr []"
    by blast
  from t1 h1 have r1: "find_files example_fs ''T1'' ''BGMOD'' ''/mer'' None None = Inr []"
    by blast
  from t3 h3 obtain e where
    e: "find_files example_fs ''T3'' ''BGSUB'' ''/mer'' None None = Inl e"
    by blast
  with t3 l3' have "listdir example_fs (path_join ''/mer'' ''T3'') = Inl e"
    by blast
  with l3 e have r3: "find_files example_fs ''T3'' ''BGSUB'' ''/mer'' None None = Inl OSError"
    by simp
  from t4 h4 have r4: "find_files example_fs ''T4'' ''BGSUB'' ''/mer'' None None = Inr []"
    by blast
  from t6 h6 obtain e' where
    e': "find_files example_fs ''T6'' ''BGSUB'' ''/mer'' (Some [''VIS'']) None = Inl e'"
    by blast
  with t6 have "listdir example_fs (path_join ''/mer'' ''T6'') = Inl e'
      \<or> (\<exists>dirs. listdir example_fs (path_join ''/mer'' ''T6'') = Inr dirs
            \<and> (\<exists>d \<in> set dirs.
                  listdir example_fs (path_join (path_join ''/mer'' ''T6'') d) = Inl e'))"
    by blast
  with l6 have "e' = OSError" by auto
  with e' have r6:
    "find_files example_fs ''T6'' ''BGSUB'' ''/mer'' (Some [''VIS'']) None = Inl OSError"
    by simp
  from h2 r2 h1 r1 h3 l3 r3 h6 r6 h4 r4 show ?thesis by blast
qed

text \<open>
  Claim C6 as stated fails where it says that the empty mapping is told apart from an
  I/O error.  On the tile \<open>T4\<close>, \<open>os.stat\<close> raises OSError and \<open>os.path.exists\<close>
  answers \<open>False\<close>; on the tile \<open>T5\<close>, \<open>os.stat\<close> raises OSError on the only
  instrument directory and \<open>os.path.isdir\<close> answers \<open>False\<close>.  For both,
  \<open>find_files\<close> returns the empty mapping, the result it has for the tile \<open>T2\<close>
  that does not exist.
\<close>

theorem find_files_stat_error_counterexample:
  "stat example_fs ''/mer/T4'' = Inl OSError
   \<and> find_files example_fs ''T4'' ''BGSUB'' ''/mer'' None None = Inr []
   \<and> listdir example_fs ''/mer/T5'' = Inr [''VIS'']
   \<and> stat example_fs ''/mer/T5/VIS'' = Inl OSError
   \<and> find_files example_fs ''T5'' ''BGSUB'' ''/mer'' None None = Inr []
   \<and> stat example_fs ''/mer/T2'' = Inr None
   \<and> find_files example_fs ''T2'' ''BGSUB'' ''/mer'' None None = Inr []"
  by (simp add: find_files_def path_join_def example_fs_def path_exists_def path_isdir_def)

section \<open>Properties of dictionaries\<close>

lemma dict_set_keys: "fst ` set (dict_set k v d) = insert k (fst ` set d)"
proof (induction d)
  case Nil
  then show ?case by simp
next
  case (Cons p d)
  obtain k' v' where p: "p = (k', v')" by (cases p)
  show ?case
  proof (cases "k' = k")
    case True
    with p show ?thesis by simp
  next
    case False
    with p Cons show ?thesis by (simp add: insert_commute)
  qed
qed

lemma dict_set_distinct:
  "distinct (map fst d) \<Longrightarrow> distinct (map fst (dict_set k v d))"
proof (induction d)
  case Nil
  then show ?case by simp
next
  case (Cons p d)
  obtain k' v' where p: "p = (k', v')" by (cases p)
  show ?case
  proof (cases "k' = k")
    case True
    with Cons.prems p show ?thesis by simp
  next
    case False
    have "k' \<notin> fst ` set (dict_set k v d)"
      using Cons.prems p False by (simp add: dict_set_keys)
    with Cons p False show ?thesis by simp
  qed
qed

lemma dict_set_items: "set (dict_set k v d) \<subseteq> insert (k, v) (set d)"
  by (induction d) (auto split: if_splits)

lemma distinct_keys_unique:
  "distinct (map fst d) \<Longrightarrow> (k, v) \<in> set d \<Longrightarrow> (k, v') \<in> set d \<Longrightarrow> v = v'"
  by (induction d) (auto simp: image_iff)

section \<open>The keys of \<open>find_files\<close> are distinct\<close>

lemma add_fits_files_distinct:
  "distinct (map fst found) \<Longrightarrow>
     distinct (map fst (add_fits_files instrument_dir inst_path file_type bands fs found))"
proof (induction fs arbitrary: found)
  case Nil
  then show ?case by simp
next
  case (Cons f fs)
  then show ?case
    by (auto split: option.splits intro!: Cons.IH dict_set_distinct)
qed

lemma scan_instrument_dirs_distinct:
  "distinct (map fst found) \<Longrightarrow>
     scan_instrument_dirs fs mer_dir file_type instruments bands dirs found = Inr files \<Longrightarrow>
     distinct (map fst files)"
proof (induction dirs arbitrary: found)
  case Nil
  then show ?case by simp
next
  case (Cons d dirs)
  show ?case
  proof (cases "scan_instrument_dirs fs mer_dir file_type instruments bands dirs found
                  = Inr files")
    case True
    with Cons.IH Cons.prems(1) show ?thesis by blast
  next
    case False
    with Cons.prems(2) obtain fl where
      "scan_instrument_dirs fs mer_dir file_type instruments bands dirs
         (add_fits_files d (path_join mer_dir d) file_type bands
            (select_fits_files file_type fl) found) = Inr files"
      by (auto simp: Let_def split: if_splits sum.splits)
    moreover have "distinct (map fst (add_fits_files d (path_join mer_dir d) file_type bands
            (select_fits_files file_type fl) found))"
      using Cons.prems(1) by (rule add_fits_files_distinct)
    ultimately show ?thesis using Cons.IH by blast
  qed
qed

lemma find_files_distinct:
  assumes "find_files fs tile_id file_type mer_root instruments bands = Inr files"
  shows "distinct (map fst files)"
proof (cases "path_exists fs (path_join mer_root tile_id)")
  case False
  with assms show ?thesis by (simp add: find_files_def)
next
  case True
  show ?thesis
  proof (cases "listdir fs (path_join mer_root tile_id)")
    case (Inl e)
    with assms True show ?thesis by (simp add: find_files_def)
  next
    case (Inr dirs)
    with assms True have s:
      "scan_instrument_dirs fs (path_join mer_root tile_id) file_type instruments bands
         dirs [] = Inr files"
      by (simp add: find_files_def)
    have "distinct (map fst ([] :: (string \<times> string) list))" by simp
    from this s show ?thesis by (rule scan_instrument_dirs_distinct)
  qed
qed

section \<open>Properties of \<open>cutout_tile\<close>\<close>

definition kept :: "bool \<Rightarrow> cutout_result \<Rightarrow> bool" where
  "kept skip_nan r = (c_success r \<and> \<not> (contains_nan r \<and> skip_nan))"

lemma cut_files_keys:
  "fst ` set (cut_files file_type skip_nan extr files cs)
     \<subseteq> fst ` set cs \<union> {k. \<exists>p. (k, p) \<in> set files \<and> kept skip_nan (extr p)}"
proof (induction files arbitrary: cs)
  case Nil
  then show ?case by simp
next
  case (Cons kp files)
  obtain key filepath where kp: "kp = (key, filepath)" by (cases kp)
  have skip: "fst ` set (cut_files file_type skip_nan extr files cs)
      \<subseteq> fst ` set cs \<union> {k. \<exists>p. (k, p) \<in> set (kp # files) \<and> kept skip_nan (extr p)}"
    using Cons.IH [of cs] by auto
  show ?case
  proof (cases "key_instrument_band file_type key")
    case None
    with skip kp show ?thesis by simp
  next
    case (Some ib)
    obtain i b where ib: "ib = (i, b)" by (cases ib)
    show ?thesis
    proof (cases "kept skip_nan (extr filepath)")
      case False
      then have "cut_files file_type skip_nan extr (kp # files) cs
                   = cut_files file_type skip_nan extr files cs"
        using kp Some ib by (auto simp: kept_def Let_def)
      with skip show ?thesis by simp
    next
      case True
      then have "cut_files file_type skip_nan extr (kp # files) cs
                   = cut_files file_type skip_nan extr files
                       (dict_set key (store_cutout (extr filepath) i b) cs)"
        using kp Some ib by (auto simp: kept_def Let_def)
      moreover have "fst ` set (cut_files file_type skip_nan extr files
                       (dict_set key (store_cutout (extr filepath) i b) cs))
          \<subseteq> insert key (fst ` set cs)
              \<union> {k. \<exists>p. (k, p) \<in> set files \<and> kept skip_nan (extr p)}"
        using Cons.IH [of "dict_set key (store_cutout (extr filepath) i b) cs"]
        by (simp add: dict_set_keys)
      ultimately show ?thesis using True kp by auto
    qed
  qed
qed

lemma cut_files_values:
  "(k, c) \<in> set (cut_files file_type skip_nan extr files cs) \<Longrightarrow>
     (k, c) \<in> set cs \<or> (c_success c \<and> \<not> (contains_nan c \<and> skip_nan))"
proof (induction files arbitrary: cs)
  case Nil
  then show ?case by simp
next
  case (Cons kp files)
  obtain key filepath where kp: "kp = (key, filepath)" by (cases kp)
  show ?case
  proof (cases "cut_files file_type skip_nan extr (kp # files) cs
                  = cut_files file_type skip_nan extr files cs")
    case True
    with Cons show ?thesis by simp
  next
    case False
    then obtain i b where
      eq: "cut_files file_type skip_nan extr (kp # files) cs
             = cut_files file_type skip_nan extr files
                 (dict_set key (store_cutout (extr filepath) i b) cs)"
      and k: "c_success (extr filepath)" "\<not> (contains_nan (extr filepath) \<and> skip_nan)"
      using kp by (auto simp: Let_def split: option.splits if_splits)
    from Cons.prems eq have
      "(k, c) \<in> set (dict_set key (store_cutout (extr filepath) i b) cs)
         \<or> (c_success c \<and> \<not> (contains_nan c \<and> skip_nan))"
      using Cons.IH by simp
    moreover have "set (dict_set key (store_cutout (extr filepath) i b) cs)
        \<subseteq> insert (key, store_cutout (extr filepath) i b) (set cs)"
      by (rule dict_set_items)
    ultimately show ?thesis using k by (auto simp: store_cutout_def)
  qed
qed

text \<open>
  Claim C5.  With \<open>skip_nan\<close> enabled: a file whose extraction succeeds with the
  \<open>contains_nan\<close> flag set has no entry in the returned \<open>cutouts\<close>; every entry
  that is returned succeeded and has no NaN; and when every candidate file fails or is
  flagged, \<open>cutout_tile\<close> returns \<open>success = False\<close>, no cutouts and an error message.
\<close>

theorem cutout_tile_skips_nan:
  fixes fs :: filesystem and read_psf :: "string \<Rightarrow> psf_file option"
    and cutout_image :: "string \<Rightarrow> cutout_result" and ra dec :: real
    and file_type tile_id mer_root :: string and instruments bands :: "string list option"
  assumes found: "find_files fs tile_id file_type mer_root instruments bands = Inr files"
  defines "extr \<equiv> extraction read_psf cutout_image ra dec file_type"
  defines "r \<equiv> cutout_tile fs read_psf cutout_image tile_id ra dec file_type mer_root
                  instruments bands True"
  shows "(\<forall>key filepath. (key, filepath) \<in> set files \<and> c_success (extr filepath)
              \<and> contains_nan (extr filepath) \<longrightarrow> key \<notin> fst ` set (cutouts r))
       \<and> (\<forall>key c. (key, c) \<in> set (cutouts r) \<longrightarrow> c_success c \<and> \<not> contains_nan c)
       \<and> ((\<forall>key filepath. (key, filepath) \<in> set files \<longrightarrow>
               \<not> c_success (extr filepath) \<or> contains_nan (extr filepath))
            \<longrightarrow> \<not> t_success r \<and> cutouts r = [] \<and> t_error r \<noteq> None)"
proof -
  define cs where "cs = cut_files file_type True extr files []"
  have sub: "cutouts r = [] \<or> cutouts r = cs"
    using found by (auto simp: r_def cutout_tile_def cs_def extr_def Let_def)
  have keys: "fst ` set cs \<subseteq> {k. \<exists>p. (k, p) \<in> set files \<and> kept True (extr p)}"
    using cut_files_keys [of file_type True extr files "[]"] by (simp add: cs_def)
  have dist: "distinct (map fst files)"
    using found by (rule find_files_distinct)
  have a: "key \<notin> fst ` set (cutouts r)"
    if "(key, filepath) \<in> set files" "c_success (extr filepath)" "contains_nan (extr filepath)"
    for key filepath
  proof
    assume "key \<in> fst ` set (cutouts r)"
    with sub have "key \<in> fst ` set cs" by auto
    with keys obtain p where p: "(key, p) \<in> set files" "kept True (extr p)" by auto
    from distinct_keys_unique [OF dist p(1) that(1)] have "p = filepath" .
    with p(2) that(3) show False by (simp add: kept_def)
  qed
  have b: "c_success c \<and> \<not> contains_nan c" if "(key, c) \<in> set (cutouts r)" for key c
  proof -
    from that sub have "(key, c) \<in> set cs" by auto
    from cut_files_values [OF this [unfolded cs_def]] show ?thesis by simp
  qed
  have c: "\<not> t_success r \<and> cutouts r = [] \<and> t_error r \<noteq> None"
    if all: "\<forall>key filepath. (key, filepath) \<in> set files \<longrightarrow>
               \<not> c_success (extr filepath) \<or> contains_nan (extr filepath)"
  proof -
    have "cs = []"
    proof (cases cs)
      case Nil
      then show ?thesis .
    next
      case (Cons x xs)
      obtain k c where "x = (k, c)" by (cases x)
      with Cons have "k \<in> fst ` set cs" by simp
      with keys obtain p where "(k, p) \<in> set files" "kept True (extr p)" by auto
      with all show ?thesis by (auto simp: kept_def)
    qed
    then show ?thesis
      using found by (simp add: r_def cutout_tile_def cs_def extr_def Let_def)
  qed
  from a b c show ?thesis by blast
qed

theorem cutout_tile_skips_nan_witness:
  "find_files example_fs ''T1'' ''BGSUB'' ''/mer'' None None
     = Inr [(''VIS_VIS'',
             ''/mer/T1/VIS/EUC_MER_BGSUB-MOSAIC-VIS_TILET1-0A1B2C_20241018T164415.fits'')]
   \<and> c_success (extraction (\<lambda>p. None) nan_image 0 0 ''BGSUB''
        ''/mer/T1/VIS/EUC_MER_BGSUB-MOSAIC-VIS_TILET1-0A1B2C_20241018T164415.fits'')
   \<and> contains_nan (extraction (\<lambda>p. None) nan_image 0 0 ''BGSUB''
        ''/mer/T1/VIS/EUC_MER_BGSUB-MOSAIC-VIS_TILET1-0A1B2C_20241018T164415.fits'')
   \<and> ''VIS_VIS'' \<notin> fst ` set (cutouts (cutout_tile example_fs (\<lambda>p. None) nan_image ''T1''
        0 0 ''BGSUB'' ''/mer'' None None True))
   \<and> \<not> t_success (cutout_tile example_fs (\<lambda>p. None) nan_image ''T1''
        0 0 ''BGSUB'' ''/mer'' None None True)
   \<and> cutouts (cutout_tile example_fs (\<lambda>p. None) nan_image ''T1''
        0 0 ''BGSUB'' ''/mer'' None None True) = []
   \<and> t_error (cutout_tile example_fs (\<lambda>p. None) nan_image ''T1''
        0 0 ''BGSUB'' ''/mer'' None None True) \<noteq> None"
proof -
  let ?p = "''/mer/T1/VIS/EUC_MER_BGSUB-MOSAIC-VIS_TILET1-0A1B2C_20241018T164415.fits''"
  let ?x = "extraction (\<lambda>p. None) nan_image 0 0 ''BGSUB''"
  have ff: "find_files example_fs ''T1'' ''BGSUB'' ''/mer'' None None
              = Inr [(''VIS_VIS'', ?p)]"
    by code_simp
  have s: "c_success (?x ?p)" and n: "contains_nan (?x ?p)"
    by (simp_all add: extraction_def nan_image_def)
  note t = cutout_tile_skips_nan [OF ff, of "\<lambda>p. None" nan_image 0 0]
  have k: "(''VIS_VIS'', ?p) \<in> set [(''VIS_VIS'', ?p)]" by simp
  from t k s n have a: "''VIS_VIS'' \<notin> fst ` set (cutouts (cutout_tile example_fs (\<lambda>p. None)
       nan_image ''T1'' 0 0 ''BGSUB'' ''/mer'' None None True))"
    by blast
  have "\<forall>key filepath. (key, filepath) \<in> set [(''VIS_VIS'', ?p)] \<longrightarrow>
          \<not> c_success (?x filepath) \<or> contains_nan (?x filepath)"
    using n by simp
  with t have b: "\<not> t_success (cutout_tile example_fs (\<lambda>p. None) nan_image ''T1''
        0 0 ''BGSUB'' ''/mer'' None None True)
     \<and> cutouts (cutout_tile example_fs (\<lambda>p. None) nan_image ''T1''
        0 0 ''BGSUB'' ''/mer'' None None True) = []
     \<and> t_error (cutout_tile example_fs (\<lambda>p. None) nan_image ''T1''
        0 0 ''BGSUB'' ''/mer'' None None True) \<noteq> None"
    by blast
  from ff s n a b show ?thesis by blast
qed

section \<open>Properties of \<open>cutout_psf\<close>\<close>

lemma slice_bounds_inside:
  "0 \<le> a \<Longrightarrow> 0 \<le> s \<Longrightarrow> a + s \<le> int n \<Longrightarrow> slice_bounds n a (a + s) = (nat a, nat s)"
  by (auto simp: slice_bounds_def slice_index_def Let_def max_def min_def)

lemma stamp_min_fits:
  "0 < s \<Longrightarrow> 0 \<le> stamp_min s n c \<Longrightarrow> stamp_min s n c + s \<le> int n"
  by (auto simp: stamp_min_def Let_def max_def split: if_splits)

lemma stamp_min_too_wide:
  "int n < s \<Longrightarrow> stamp_min s n c < 0"
  by (auto simp: stamp_min_def Let_def max_def split: if_splits)

text \<open>
  For a positive \<open>STMPSIZE\<close> the extraction does what claim C3 says: a successful
  result holds a stamp of exactly \<open>STMPSIZE\<close> rows and columns, and a stamp wider
  than the image on either axis gives a failure with a message.
\<close>

lemma cutout_psf_positive_exact:
  fixes f :: psf_file and s :: int and ra dec :: real
  assumes card: "stmpsize_card f = Some s" and pos: "0 < s"
  defines "r \<equiv> cutout_psf (Some f) ra dec"
  shows "(c_success r \<longrightarrow>
            (\<exists>d. c_data r = Some d \<and> int (nrows d) = s \<and> int (ncols d) = s))
       \<and> (int (ncols (img_data f)) < s \<or> int (nrows (img_data f)) < s \<longrightarrow>
            \<not> c_success r \<and> c_error r \<noteq> None)"
proof (cases "valid_latitude dec \<and> list_all (\<lambda>r. valid_latitude (p_dec r)) (psf_table f)")
  case False
  with card pos show ?thesis
    by (auto simp: r_def cutout_psf_def cutout_failure_def)
next
  case lat: True
  show ?thesis
  proof (cases "argmin (map (\<lambda>r. separation ra dec (p_ra r) (p_dec r)) (psf_table f))")
  case None
  with card pos lat show ?thesis
    by (simp add: r_def cutout_psf_def cutout_failure_def)
next
  case (Some nearest_idx)
  define nearest_psf where "nearest_psf = psf_table f ! nearest_idx"
  define x_min where
    "x_min = stamp_min s (ncols (img_data f)) (x_center nearest_psf)"
  define y_min where
    "y_min = stamp_min s (nrows (img_data f)) (y_center nearest_psf)"
  show ?thesis
  proof (cases "x_min < 0 \<or> y_min < 0")
    case True
    with card pos Some lat have "r = cutout_failure Msg_outside_image"
      by (simp add: r_def cutout_psf_def Let_def x_min_def y_min_def nearest_psf_def)
    then show ?thesis by (simp add: cutout_failure_def)
  next
    case False
    then have x0: "0 \<le> x_min" and y0: "0 \<le> y_min" by simp_all
    have xf: "x_min + s \<le> int (ncols (img_data f))"
      unfolding x_min_def using pos x0 [unfolded x_min_def] by (rule stamp_min_fits)
    have yf: "y_min + s \<le> int (nrows (img_data f))"
      unfolding y_min_def using pos y0 [unfolded y_min_def] by (rule stamp_min_fits)
    define psf_cutout where
      "psf_cutout = slice2 (img_data f) y_min (y_min + s) x_min (x_min + s)"
    have dims: "nrows psf_cutout = nat s" "ncols psf_cutout = nat s"
      using pos slice_bounds_inside [OF x0 _ xf] slice_bounds_inside [OF y0 _ yf]
      by (simp_all add: psf_cutout_def slice2_def)
    have wide: "\<not> (int (ncols (img_data f)) < s \<or> int (nrows (img_data f)) < s)"
      using x0 y0 xf yf by auto
    have "r = \<lparr>c_success = True, c_data = Some psf_cutout, c_error = None,
               contains_nan = isnan_any psf_cutout, psf_idx = Some nearest_idx\<rparr>"
      using card pos Some False dims lat
      by (simp add: r_def cutout_psf_def Let_def x_min_def y_min_def nearest_psf_def
          psf_cutout_def)
    with dims pos wide show ?thesis by simp
  qed
  qed
qed

text \<open>
  Claim C3 at a file whose \<open>STMPSIZE\<close> card is \<open>-4\<close> (image 100 by 100, nearest
  stamp centred at pixel (1, 1)): only the value 0 is refused, the bounds become
  \<open>img_data[2:-2, 2:-2]\<close>, and the extraction succeeds with a stamp of 96 by 96 pixels,
  which is not the declared width.
\<close>

theorem cutout_psf_negative_stmpsize:
  "stmpsize_card (example_psf (- 4)) = Some (- 4)
   \<and> c_success (cutout_psf (Some (example_psf (- 4))) 10 20)
   \<and> c_error (cutout_psf (Some (example_psf (- 4))) 10 20) = None
   \<and> map_option (\<lambda>d. (nrows d, ncols d))
        (c_data (cutout_psf (Some (example_psf (- 4))) 10 20)) = Some (96, 96)"
  by (simp add: cutout_psf_def example_psf_def stamp_min_def py_int_def slice2_def
      slice_bounds_def slice_index_def Let_def isnan_any_def valid_latitude_def)

section \<open>Properties of \<open>argmin\<close>\<close>

lemma argmin_Some: "xs \<noteq> [] \<Longrightarrow> \<exists>i. argmin xs = Some i"
  by (cases xs) (auto split: option.splits)

lemma argmin_first_min:
  "argmin xs = Some i \<Longrightarrow>
     i < length xs \<and> (\<forall>j < length xs. xs ! i \<le> xs ! j) \<and> (\<forall>j < i. xs ! i < xs ! j)"
proof (induction xs arbitrary: i)
  case Nil
  then show ?case by simp
next
  case (Cons x xs)
  show ?case
  proof (cases "argmin xs")
    case None
    then have "xs = []" by (cases xs) (auto split: option.splits if_splits)
    with Cons.prems None show ?thesis by simp
  next
    case (Some k)
    from Cons.IH [OF Some] have k: "k < length xs" "\<forall>j < length xs. xs ! k \<le> xs ! j"
      "\<forall>j < k. xs ! k < xs ! j"
      by simp_all
    show ?thesis
    proof (cases "x \<le> xs ! k")
      case True
      with Cons.prems Some have i: "i = 0" by simp
      have "\<forall>j < length (x # xs). (x # xs) ! 0 \<le> (x # xs) ! j"
      proof (intro allI impI)
        fix j assume "j < length (x # xs)"
        then show "(x # xs) ! 0 \<le> (x # xs) ! j"
          using True k(2) by (cases j) (auto intro: order_trans)
      qed
      with i show ?thesis by simp
    next
      case False
      with Cons.prems Some have i: "i = Suc k" by simp
      have a: "\<forall>j < length (x # xs). (x # xs) ! Suc k \<le> (x # xs) ! j"
      proof (intro allI impI)
        fix j assume "j < length (x # xs)"
        then show "(x # xs) ! Suc k \<le> (x # xs) ! j"
          using False k(2) by (cases j) auto
      qed
      have b: "\<forall>j < Suc k. (x # xs) ! Suc k < (x # xs) ! j"
      proof (intro allI impI)
        fix j assume "j < Suc k"
        then show "(x # xs) ! Suc k < (x # xs) ! j"
          using False k(3) by (cases j) auto
      qed
      from i k(1) a b show ?thesis by simp
    qed
  qed
qed

section \<open>Properties of \<open>query_tile_id\<close>\<close>

lemma query_tile_id_many:
  assumes "Table_read tile_index_file = Inr (colnames, rows)"
    and "set tile_columns \<subseteq> set colnames"
    and "2 \<le> length (filter (in_tile ra dec tolerance) rows)"
    and "valid_latitude dec"
    and "list_all (\<lambda>t. valid_latitude (DEC_CENTER t)) (filter (in_tile ra dec tolerance) rows)"
  shows "\<exists>i. argmin (map (center_separation ra dec) (filter (in_tile ra dec tolerance) rows))
              = Some i
           \<and> query_tile_id Table_read ra dec tile_index_file tolerance
              = Some (TILE_ID (filter (in_tile ra dec tolerance) rows ! i))"
proof -
  define matched where "matched = filter (in_tile ra dec tolerance) rows"
  have l2: "2 \<le> length matched"
    using assms(3) by (simp add: matched_def)
  then have ne: "length matched \<noteq> 0" "length matched \<noteq> 1"
    by auto
  then have "map (center_separation ra dec) matched \<noteq> []"
    by (cases matched) simp_all
  then obtain i where i: "argmin (map (center_separation ra dec) matched) = Some i"
    using argmin_Some by blast
  have "query_tile_id Table_read ra dec tile_index_file tolerance
          = Some (TILE_ID (matched ! i))"
    using assms(1,2,4,5) i ne
    by (simp add: query_tile_id_def query_tile_id_try_def tile_columns_def Let_def
        matched_def [symmetric])
  with i show ?thesis unfolding matched_def by blast
qed

lemma unique_nearest_index:
  assumes "argmin (map f xs) = Some i" and "t \<in> set xs"
    and "\<forall>u \<in> set xs. u \<noteq> t \<longrightarrow> f t < f u"
  shows "xs ! i = t"
proof (rule ccontr)
  assume ne: "xs ! i \<noteq> t"
  from argmin_first_min [OF assms(1)] have i: "i < length xs"
    and le: "\<forall>j < length xs. f (xs ! i) \<le> f (xs ! j)"
    by auto
  from assms(2) obtain j where j: "j < length xs" "xs ! j = t"
    by (auto simp: in_set_conv_nth)
  with le have "f (xs ! i) \<le> f t" by auto
  moreover from i ne assms(3) have "f t < f (xs ! i)" by auto
  ultimately show False by simp
qed

text \<open>
  Claim C2, as the code has it.  For a position and tile centres with latitudes in
  \<open>[-90, 90]\<close> and an index with all its columns, when at least two tiles match: the
  result is the id of a matched tile whose centre has the smallest separation from the
  position, namely the first such tile in the order of the index (\<open>np.argmin\<close>
  returns the first index of the minimum); and when one matched tile is strictly nearer
  than every other matched tile, every reordering of the index gives the same result,
  the id of that tile.
\<close>

theorem query_tile_id_nearest_center:
  fixes Table_read :: "string \<Rightarrow> py_error + tile_table"
  assumes read: "Table_read tile_index_file = Inr (colnames, rows)"
    and cols: "set tile_columns \<subseteq> set colnames"
    and many: "2 \<le> length (filter (in_tile ra dec tolerance) rows)"
    and lat: "valid_latitude dec"
    and centers: "list_all (\<lambda>t. valid_latitude (DEC_CENTER t)) rows"
  shows "(\<exists>i < length (filter (in_tile ra dec tolerance) rows).
            query_tile_id Table_read ra dec tile_index_file tolerance
              = Some (TILE_ID (filter (in_tile ra dec tolerance) rows ! i))
          \<and> (\<forall>j < length (filter (in_tile ra dec tolerance) rows).
                center_separation ra dec (filter (in_tile ra dec tolerance) rows ! i)
                  \<le> center_separation ra dec (filter (in_tile ra dec tolerance) rows ! j))
          \<and> (\<forall>j < i.
                center_separation ra dec (filter (in_tile ra dec tolerance) rows ! i)
                  < center_separation ra dec (filter (in_tile ra dec tolerance) rows ! j)))
       \<and> (\<forall>t rows'.
            t \<in> set rows \<and> in_tile ra dec tolerance t
            \<and> (\<forall>u \<in> set rows. in_tile ra dec tolerance u \<and> u \<noteq> t \<longrightarrow>
                  center_separation ra dec t < center_separation ra dec u)
            \<and> mset rows' = mset rows
            \<longrightarrow> query_tile_id (Table_read(tile_index_file := Inr (colnames, rows')))
                  ra dec tile_index_file tolerance = Some (TILE_ID t)
                \<and> query_tile_id Table_read ra dec tile_index_file tolerance
                    = Some (TILE_ID t))"
proof (intro conjI allI impI)
  define matched where "matched = filter (in_tile ra dec tolerance) rows"
  have cm: "list_all (\<lambda>t. valid_latitude (DEC_CENTER t))
              (filter (in_tile ra dec tolerance) rows)"
    using centers by (simp add: list_all_iff)
  from query_tile_id_many [of Table_read tile_index_file colnames rows ra dec tolerance,
      OF read cols many lat cm] obtain i where
    i: "argmin (map (center_separation ra dec) matched) = Some i"
    and q: "query_tile_id Table_read ra dec tile_index_file tolerance
              = Some (TILE_ID (matched ! i))"
    unfolding matched_def by blast
  from argmin_first_min [OF i] have
    "i < length matched"
    "\<forall>j < length matched. center_separation ra dec (matched ! i)
        \<le> center_separation ra dec (matched ! j)"
    "\<forall>j < i. center_separation ra dec (matched ! i)
        < center_separation ra dec (matched ! j)"
    by (auto simp: nth_map)
  with q show "\<exists>i < length (filter (in_tile ra dec tolerance) rows).
            query_tile_id Table_read ra dec tile_index_file tolerance
              = Some (TILE_ID (filter (in_tile ra dec tolerance) rows ! i))
          \<and> (\<forall>j < length (filter (in_tile ra dec tolerance) rows).
                center_separation ra dec (filter (in_tile ra dec tolerance) rows ! i)
                  \<le> center_separation ra dec (filter (in_tile ra dec tolerance) rows ! j))
          \<and> (\<forall>j < i.
                center_separation ra dec (filter (in_tile ra dec tolerance) rows ! i)
                  < center_separation ra dec (filter (in_tile ra dec tolerance) rows ! j))"
    unfolding matched_def by blast
next
  fix t rows'
  assume a: "t \<in> set rows \<and> in_tile ra dec tolerance t
            \<and> (\<forall>u \<in> set rows. in_tile ra dec tolerance u \<and> u \<noteq> t \<longrightarrow>
                  center_separation ra dec t < center_separation ra dec u)
            \<and> mset rows' = mset rows"
  have nearest: "query_tile_id R ra dec tile_index_file tolerance = Some (TILE_ID t)"
    if r: "R tile_index_file = Inr (colnames, rs)" and m: "mset rs = mset rows"
    for R rs
  proof -
    define matched where "matched = filter (in_tile ra dec tolerance) rs"
    have "mset matched = mset (filter (in_tile ra dec tolerance) rows)"
      using m by (simp add: matched_def)
    then have len: "length matched = length (filter (in_tile ra dec tolerance) rows)"
      by (rule mset_eq_length)
    have sets: "set rs = set rows" using m by (rule mset_eq_setD)
    have cm: "list_all (\<lambda>t. valid_latitude (DEC_CENTER t))
                (filter (in_tile ra dec tolerance) rs)"
      using centers sets by (simp add: list_all_iff)
    from query_tile_id_many [of R tile_index_file colnames rs ra dec tolerance, OF r cols
        _ lat cm] many len obtain i where
      i: "argmin (map (center_separation ra dec) matched) = Some i"
      and q: "query_tile_id R ra dec tile_index_file tolerance
                = Some (TILE_ID (matched ! i))"
      unfolding matched_def by auto
    have "t \<in> set matched" using a sets by (simp add: matched_def)
    moreover have "\<forall>u \<in> set matched. u \<noteq> t \<longrightarrow>
        center_separation ra dec t < center_separation ra dec u"
      using a sets by (simp add: matched_def)
    ultimately have "matched ! i = t"
      using i by (intro unique_nearest_index [where f = "center_separation ra dec"])
    with q show ?thesis by simp
  qed
  from a show "query_tile_id (Table_read(tile_index_file := Inr (colnames, rows')))
                  ra dec tile_index_file tolerance = Some (TILE_ID t)"
    by (intro nearest [where rs = rows']) simp_all
  from read show "query_tile_id Table_read ra dec tile_index_file tolerance
                    = Some (TILE_ID t)"
    by (intro nearest [where rs = rows]) simp_all
qed

lemma center_separation_north: "center_separation 0 0 tile_north = pi / 180"
proof -
  have "arccos (cos (pi / 180)) = pi / 180"
    by (rule arccos_cos) (simp_all add: field_simps)
  then show ?thesis
    by (simp add: center_separation_def separation_def deg_def tile_north_def)
qed

lemma center_separation_south: "center_separation 0 0 tile_south = pi / 180"
proof -
  have "arccos (cos (pi / 180)) = pi / 180"
    by (rule arccos_cos) (simp_all add: field_simps)
  then show ?thesis
    by (simp add: center_separation_def separation_def deg_def tile_south_def)
qed

lemma center_separation_middle: "center_separation 0 0 tile_middle = 0"
  by (simp add: center_separation_def separation_def deg_def tile_middle_def)

text \<open>
  Claim C2 as stated fails on a tie: the position (0, 0) lies in both tiles and is
  equally far from their centres; the index that lists the northern tile first gives
  the northern tile, the index that lists the southern tile first gives the southern one.
\<close>

theorem query_tile_id_order_counterexample:
  "mset [tile_south, tile_north] = mset [tile_north, tile_south]
   \<and> length (filter (in_tile 0 0 (1 / 100)) [tile_north, tile_south]) = 2
   \<and> center_separation 0 0 tile_north = center_separation 0 0 tile_south
   \<and> query_tile_id (\<lambda>path. Inr (tile_columns, [tile_north, tile_south])) 0 0
        ''tile_coordinates.fits'' (1 / 100) = Some ''102018211''
   \<and> query_tile_id (\<lambda>path. Inr (tile_columns, [tile_south, tile_north])) 0 0
        ''tile_coordinates.fits'' (1 / 100) = Some ''102018212''"
proof -
  have m: "in_tile 0 0 (1 / 100) tile_north" "in_tile 0 0 (1 / 100) tile_south"
    by (simp_all add: in_tile_def tile_north_def tile_south_def)
  have v: "valid_latitude 0" "valid_latitude (DEC_CENTER tile_north)"
    "valid_latitude (DEC_CENTER tile_south)"
    by (simp_all add: valid_latitude_def tile_north_def tile_south_def)
  have "query_tile_id (\<lambda>path. Inr (tile_columns, [tile_north, tile_south])) 0 0
        ''tile_coordinates.fits'' (1 / 100) = Some (TILE_ID tile_north)"
    using m v
    by (simp add: query_tile_id_def query_tile_id_try_def tile_columns_def
        center_separation_north center_separation_south)
  moreover have "query_tile_id (\<lambda>path. Inr (tile_columns, [tile_south, tile_north])) 0 0
        ''tile_coordinates.fits'' (1 / 100) = Some (TILE_ID tile_south)"
    using m v
    by (simp add: query_tile_id_def query_tile_id_try_def tile_columns_def
        center_separation_north center_separation_south)
  ultimately show ?thesis
    using m by (simp add: center_separation_north center_separation_south)
      (simp add: tile_north_def tile_south_def)
qed

theorem query_tile_id_nearest_center_witness:
  "example_index ''tile_coordinates.fits'' = Inr (tile_columns, [tile_north, tile_middle])
   \<and> 2 \<le> length (filter (in_tile 0 0 (1 / 100)) [tile_north, tile_middle])
   \<and> valid_latitude 0
   \<and> list_all (\<lambda>t. valid_latitude (DEC_CENTER t)) [tile_north, tile_middle]
   \<and> center_separation 0 0 tile_middle < center_separation 0 0 tile_north
   \<and> mset [tile_middle, tile_north] = mset [tile_north, tile_middle]
   \<and> query_tile_id example_index 0 0 ''tile_coordinates.fits'' (1 / 100)
        = Some ''102018213''
   \<and> query_tile_id
        (example_index(''tile_coordinates.fits'' :=
           Inr (tile_columns, [tile_middle, tile_north])))
        0 0 ''tile_coordinates.fits'' (1 / 100) = Some ''102018213''"
proof -
  have r: "example_index ''tile_coordinates.fits''
             = Inr (tile_columns, [tile_north, tile_middle])"
    by (simp add: example_index_def)
  have m: "in_tile 0 0 (1 / 100) tile_north" "in_tile 0 0 (1 / 100) tile_middle"
    by (simp_all add: in_tile_def tile_north_def tile_middle_def)
  then have two: "2 \<le> length (filter (in_tile 0 0 (1 / 100)) [tile_north, tile_middle])"
    by simp
  have lt: "center_separation 0 0 tile_middle < center_separation 0 0 tile_north"
    by (simp add: center_separation_north center_separation_middle)
  have ms: "mset [tile_middle, tile_north] = mset [tile_north, tile_middle]"
    by simp
  have uniq: "\<forall>u \<in> set [tile_north, tile_middle].
      in_tile 0 0 (1 / 100) u \<and> u \<noteq> tile_middle \<longrightarrow>
        center_separation 0 0 tile_middle < center_separation 0 0 u"
    using lt by simp
  have v: "valid_latitude 0"
    "list_all (\<lambda>t. valid_latitude (DEC_CENTER t)) [tile_north, tile_middle]"
    by (simp_all add: valid_latitude_def tile_north_def tile_middle_def)
  note t = query_tile_id_nearest_center [where Table_read = example_index
      and tile_index_file = "''tile_coordinates.fits''" and colnames = tile_columns
      and rows = "[tile_north, tile_middle]" and ra = 0 and dec = 0
      and tolerance = "1 / 100", OF r subset_refl two v, THEN conjunct2, rule_format,
      of tile_middle "[tile_middle, tile_north]"]
  have "query_tile_id
        (example_index(''tile_coordinates.fits'' :=
           Inr (tile_columns, [tile_middle, tile_north])))
        0 0 ''tile_coordinates.fits'' (1 / 100) = Some (TILE_ID tile_middle)
      \<and> query_tile_id example_index 0 0 ''tile_coordinates.fits'' (1 / 100)
        = Some (TILE_ID tile_middle)"
    using m(2) uniq ms by (intro t) simp
  then show ?thesis
    using r two lt ms v by (simp add: tile_middle_def)
qed

text \<open>
  Claim C10.  \<open>query_tile_id\<close> always returns a tile id or \<open>None\<close>: every exception
  of its body becomes \<open>None\<close>.  That is what an unreadable index file gives, what an
  index table without the bounding-box columns gives, and what a position contained in
  no tile gives; the wrapper of core/coordinate_matcher.py passes the result on.
\<close>

theorem query_tile_id_total:
  fixes Table_read :: "string \<Rightarrow> py_error + tile_table"
  shows "(\<forall>e. query_tile_id_try Table_read ra dec tile_index_file tolerance = Inl e \<longrightarrow>
            query_tile_id Table_read ra dec tile_index_file tolerance = None)
       \<and> (\<forall>e. Table_read tile_index_file = Inl e \<longrightarrow>
            query_tile_id Table_read ra dec tile_index_file tolerance = None)
       \<and> (\<forall>colnames rows. Table_read tile_index_file = Inr (colnames, rows)
            \<and> \<not> set [''RA_MIN'', ''RA_MAX'', ''DEC_MIN'', ''DEC_MAX''] \<subseteq> set colnames \<longrightarrow>
            query_tile_id Table_read ra dec tile_index_file tolerance = None)
       \<and> (\<forall>colnames rows. Table_read tile_index_file = Inr (colnames, rows)
            \<and> set tile_columns \<subseteq> set colnames
            \<and> list_all (\<lambda>t. \<not> in_tile ra dec tolerance t) rows \<longrightarrow>
            query_tile_id Table_read ra dec tile_index_file tolerance = None)
       \<and> matcher_query_tile_id Table_read project_root ra dec (Some tile_index_file)
           = query_tile_id Table_read ra dec tile_index_file (1 / 100)"
proof (intro conjI allI impI)
  fix e
  assume "query_tile_id_try Table_read ra dec tile_index_file tolerance = Inl e"
  then show "query_tile_id Table_read ra dec tile_index_file tolerance = None"
    by (simp add: query_tile_id_def)
next
  fix e
  assume "Table_read tile_index_file = Inl e"
  then show "query_tile_id Table_read ra dec tile_index_file tolerance = None"
    by (simp add: query_tile_id_def query_tile_id_try_def)
next
  fix colnames rows
  assume "Table_read tile_index_file = Inr (colnames, rows)
            \<and> \<not> set [''RA_MIN'', ''RA_MAX'', ''DEC_MIN'', ''DEC_MAX''] \<subseteq> set colnames"
  then show "query_tile_id Table_read ra dec tile_index_file tolerance = None"
    by (simp add: query_tile_id_def query_tile_id_try_def)
next
  fix colnames rows
  assume a: "Table_read tile_index_file = Inr (colnames, rows)
            \<and> set tile_columns \<subseteq> set colnames
            \<and> list_all (\<lambda>t. \<not> in_tile ra dec tolerance t) rows"
  then have "filter (in_tile ra dec tolerance) rows = []"
    by (simp add: list_all_iff filter_empty_conv)
  with a show "query_tile_id Table_read ra dec tile_index_file tolerance = None"
    by (simp add: query_tile_id_def query_tile_id_try_def tile_columns_def)
next
  show "matcher_query_tile_id Table_read project_root ra dec (Some tile_index_file)
           = query_tile_id Table_read ra dec tile_index_file (1 / 100)"
    by (simp add: matcher_query_tile_id_def)
qed

theorem query_tile_id_total_witness:
  "example_index ''missing.fits'' = Inl OSError
   \<and> query_tile_id example_index 0 0 ''missing.fits'' (1 / 100) = None
   \<and> example_index ''no_columns.fits'' = Inr ([''TILE_ID''], [tile_north])
   \<and> query_tile_id example_index 0 0 ''no_columns.fits'' (1 / 100) = None
   \<and> list_all (\<lambda>t. \<not> in_tile 50 50 (1 / 100) t) [tile_north, tile_middle]
   \<and> query_tile_id example_index 50 50 ''tile_coordinates.fits'' (1 / 100) = None
   \<and> matcher_query_tile_id example_index ''/srv'' 50 50 (Some ''tile_coordinates.fits'')
       = None"
proof -
  have r1: "example_index ''missing.fits'' = Inl OSError"
    and r2: "example_index ''no_columns.fits'' = Inr ([''TILE_ID''], [tile_north])"
    and r3: "example_index ''tile_coordinates.fits''
               = Inr (tile_columns, [tile_north, tile_middle])"
    by (simp_all add: example_index_def)
  have nc: "\<not> set [''RA_MIN'', ''RA_MAX'', ''DEC_MIN'', ''DEC_MAX''] \<subseteq> set [''TILE_ID'']"
    by simp
  have out: "list_all (\<lambda>t. \<not> in_tile 50 50 (1 / 100) t) [tile_north, tile_middle]"
    by (simp add: in_tile_def tile_north_def tile_middle_def)
  note t1 = query_tile_id_total [of example_index 0 0 "''missing.fits''" "1 / 100"]
  note t2 = query_tile_id_total [of example_index 0 0 "''no_columns.fits''" "1 / 100"]
  note t3 = query_tile_id_total [of example_index 50 50 "''tile_coordinates.fits''"
      "1 / 100" "''/srv''"]
  from t1 r1 have a: "query_tile_id example_index 0 0 ''missing.fits'' (1 / 100) = None"
    by blast
  from t2 r2 nc have b: "query_tile_id example_index 0 0 ''no_columns.fits'' (1 / 100) = None"
    by blast
  from t3 r3 out have c:
    "query_tile_id example_index 50 50 ''tile_coordinates.fits'' (1 / 100) = None"
    by blast
  from t3 c have d:
    "matcher_query_tile_id example_index ''/srv'' 50 50 (Some ''tile_coordinates.fits'')
       = None"
    by simp
  from r1 a r2 b out c d show ?thesis by blast
qed

section \<open>Properties of the cache key\<close>

lemma generate_source_cache_key_unfold:
  "generate_source_cache_key float_str ra dec cut_size instrument file_type band =
     ''ra_'' @ float_str (py_round6 ra) @ ''_dec_'' @ float_str (py_round6 dec)
       @ ''_size_'' @ str_int cut_size @ ''_inst_'' @ instrument
       @ ''_type_'' @ file_type @ ''_band_'' @ band_or_unknown band"
  by (simp add: generate_source_cache_key_def)

lemma py_round6_examples:
  "py_round6 (Number (105000001 / 10000000)) = Number (21 / 2)"
  "py_round6 (Number (105000003 / 10000000)) = Number (21 / 2)"
  "py_round6 (Number (81 / 4)) = Number (81 / 4)"
  "py_round6 (Number (21 / 2)) = Number (21 / 2)"
  "py_round6 (Number (- 1 / 10000000)) = Minus_zero"
  "py_round6 (Number (1 / 10000000)) = Number 0"
  "py_round6 (Number 0) = Number 0"
  "py_round6 Minus_zero = Minus_zero"
  by (simp_all add: py_round6_def round_half_even_def float_value_def signbit_def Let_def)

text \<open>
  The key is computed from the two rounded floats, the size, the instrument, the product
  type and the band after its default: requests whose rounded coordinates are the same
  floats, the sign of a zero included, and that agree on the other four receive the same
  key.
\<close>

lemma cache_key_same_components:
  "py_round6 ra1 = py_round6 ra2 \<Longrightarrow> py_round6 dec1 = py_round6 dec2 \<Longrightarrow>
   band_or_unknown band1 = band_or_unknown band2 \<Longrightarrow>
     generate_source_cache_key float_str ra1 dec1 cut_size instrument file_type band1
       = generate_source_cache_key float_str ra2 dec2 cut_size instrument file_type band2"
  by (simp add: generate_source_cache_key_unfold)

text \<open>
  Two requests for the same target that differ in band receive different keys: the
  default \<open>'unknown'\<close> of an absent band is not the name of a band that a request can
  carry.
\<close>

lemma band_or_unknown_request_bands:
  "band \<in> set request_bands \<Longrightarrow>
     (band = None \<and> band_or_unknown band = ''unknown'')
     \<or> (\<exists>b. band = Some b \<and> b \<noteq> ''unknown'' \<and> band_or_unknown band = b)"
  by (auto simp: request_bands_def band_map_def band_or_unknown_def)

lemma cache_key_request_bands:
  assumes "band1 \<in> set request_bands" and "band2 \<in> set request_bands"
    and "band1 \<noteq> band2"
  shows "generate_source_cache_key float_str ra dec cut_size instrument file_type band1
       \<noteq> generate_source_cache_key float_str ra dec cut_size instrument file_type band2"
proof -
  have "band_or_unknown band1 \<noteq> band_or_unknown band2"
    using band_or_unknown_request_bands [OF assms(1)]
      band_or_unknown_request_bands [OF assms(2)] assms(3)
    by auto
  then show ?thesis
    by (simp add: generate_source_cache_key_unfold)
qed

text \<open>
  Claim C7 at two requests for the same target and band with declinations
  \<open>-0.0000001\<close> and \<open>0.0000001\<close> degrees.  Both round to zero at six decimal
  places, and the two rounded values are equal numbers; but \<open>round\<close> keeps the sign,
  the first is \<open>-0.0\<close> and is written \<open>-0.0\<close> in the key, the second is written
  \<open>0.0\<close>: the two requests agree on all six components after rounding and receive
  different keys.
\<close>

theorem cache_key_minus_zero:
  "py_round6 (Number (- 1 / 10000000)) = Minus_zero
   \<and> py_round6 (Number (1 / 10000000)) = Number 0
   \<and> float_eq (py_round6 (Number (- 1 / 10000000))) (py_round6 (Number (1 / 10000000)))
   \<and> generate_source_cache_key example_repr (Number (21 / 2)) (Number (- 1 / 10000000)) 128
        ''VIS'' ''BGSUB'' (Some ''VIS'')
     = ''ra_10.5_dec_-0.0_size_128_inst_VIS_type_BGSUB_band_VIS''
   \<and> generate_source_cache_key example_repr (Number (21 / 2)) (Number (1 / 10000000)) 128
        ''VIS'' ''BGSUB'' (Some ''VIS'')
     = ''ra_10.5_dec_0.0_size_128_inst_VIS_type_BGSUB_band_VIS''"
proof -
  have s: "str_int 128 = ''128''" by code_simp
  have m: "py_round6 (Number (- 1 / 10000000)) = Minus_zero"
    by (rule py_round6_examples)
  have z: "py_round6 (Number (1 / 10000000)) = Number 0"
    by (rule py_round6_examples)
  have h: "py_round6 (Number (21 / 2)) = Number (21 / 2)"
    by (rule py_round6_examples)
  have e: "float_eq (py_round6 (Number (- 1 / 10000000))) (py_round6 (Number (1 / 10000000)))"
    unfolding m z by (simp add: float_eq_def float_value_def)
  have k1: "generate_source_cache_key example_repr (Number (21 / 2))
              (Number (- 1 / 10000000)) 128 ''VIS'' ''BGSUB'' (Some ''VIS'')
     = ''ra_10.5_dec_-0.0_size_128_inst_VIS_type_BGSUB_band_VIS''"
    unfolding generate_source_cache_key_unfold m h s
    by (simp add: example_repr_def band_or_unknown_def)
  have k2: "generate_source_cache_key example_repr (Number (21 / 2))
              (Number (1 / 10000000)) 128 ''VIS'' ''BGSUB'' (Some ''VIS'')
     = ''ra_10.5_dec_0.0_size_128_inst_VIS_type_BGSUB_band_VIS''"
    unfolding generate_source_cache_key_unfold z h s
    by (simp add: example_repr_def band_or_unknown_def)
  from m z e k1 k2 show ?thesis by blast
qed

section \<open>Properties of the result cache\<close>

lemma example_cache_file:
  "cache_file example_repr ''/srv/app'' example_config (example_catalog ! 0) ''VIS'' ''BGSUB''
     = ''/srv/app/cache/VIS/BGSUB/ra_10.5_dec_20.25_size_128_inst_VIS_type_BGSUB_band_VIS.fits''"
proof -
  have s: "str_int 128 = ''128''" by code_simp
  show ?thesis
    by (simp add: cache_file_def example_config_def example_catalog_def CACHE_DIR_def
        path_join_def generate_source_cache_key_unfold band_or_unknown_def
        py_round6_examples example_repr_def s)
qed

text \<open>
  A hit of the cache check is not copied when a band was requested; and a source whose
  target id is the integer \<open>0\<close> is named by its position.
\<close>

lemma copy_cached_file_requested_band:
  "cfg_band config = Some b \<Longrightarrow> b \<noteq> [] \<Longrightarrow>
     copy_cached_file float_str fmt8 app_dir task_id config catalog hit
       = Inl UnboundLocalError"
  by (simp add: copy_cached_file_def split: prod.splits)

lemma cached_file_paths_requested_band:
  "cfg_band config = Some b \<Longrightarrow> b \<noteq> [] \<Longrightarrow>
     cached_file_paths float_str fmt8 app_dir task_id config catalog cached = []"
  by (simp add: cached_file_paths_def copy_cached_file_requested_band)

lemma build_unified_filename_id_zero:
  "build_unified_filename fmt8 (Id_int 0) ''BGSUB'' ''VIS'' ''VIS'' (Some (ra, dec))
     = ''RA_'' @ filter (\<lambda>c. c \<noteq> CHR ''.'' \<and> c \<noteq> CHR ''-'') (fmt8 ra) @ ''_Dec_''
         @ filter (\<lambda>c. c \<noteq> CHR ''.'' \<and> c \<noteq> CHR ''-'') (fmt8 dec) @ ''_VIS_BGSUB.fits''"
  by (simp add: build_unified_filename_def truthy_id_def Let_def upper_char_def)

lemma example_work_items:
  "work_items example_config example_catalog = [(0, ''VIS'', ''BGSUB'')]"
  by (simp add: work_items_def example_config_def example_catalog_def)

lemma example_new_file_paths:
  "new_file_paths example_repr ''/srv/app'' (\<lambda>i file_type. True) ''task-1'' example_config
     example_catalog [(0, ''VIS'', ''BGSUB'')]
   = [''/home/aaron/tmp/Euclid_download/task-1/VIS/42_VIS_BGSUB.fits'',
      ''/srv/app/tmp/task-1/VIS/42_VIS_BGSUB.fits'',
      ''/home/aaron/tmp/Euclid_download/VIS/42_VIS_BGSUB.fits'']"
  by code_simp

lemma three_paths_minus:
  "\<not> P a \<Longrightarrow> P b \<Longrightarrow> \<not> P c \<Longrightarrow> ({} \<union> set [a, b, c]) - {p. P p} = {a, c}"
  by auto

lemma example_after_first_task:
  "after_first_task
     = {''/home/aaron/tmp/Euclid_download/task-1/VIS/42_VIS_BGSUB.fits'',
        ''/home/aaron/tmp/Euclid_download/VIS/42_VIS_BGSUB.fits''}"
proof -
  let ?a = "''/home/aaron/tmp/Euclid_download/task-1/VIS/42_VIS_BGSUB.fits''"
  let ?b = "''/srv/app/tmp/task-1/VIS/42_VIS_BGSUB.fits''"
  let ?c = "''/home/aaron/tmp/Euclid_download/VIS/42_VIS_BGSUB.fits''"
  let ?t = "''/srv/app/tmp/task-1/''"
  have t: "path_join (TMP_DIR ''/srv/app'') ''task-1'' @ ''/'' = ?t"
    by (simp add: TMP_DIR_def path_join_def)
  have c: "cached_sources_info example_repr ''/srv/app'' example_config example_catalog {}
             = []"
    by (simp add: cached_sources_info_def example_work_items)
  have p: "sources_to_process example_repr ''/srv/app'' example_config example_catalog {}
             = [(0, ''VIS'', ''BGSUB'')]"
    by (simp add: sources_to_process_def example_work_items)
  have e: "cached_file_paths example_repr example_repr ''/srv/app'' ''task-1''
             example_config example_catalog [] = []"
    by (simp add: cached_file_paths_def)
  have pa: "\<not> prefix ?t ?a" and pb: "prefix ?t ?b" and pc: "\<not> prefix ?t ?c"
    by simp_all
  have "after_first_task = ({} \<union> set [?a, ?b, ?c]) - {p. prefix ?t p}"
    unfolding after_first_task_def process_task_def Let_def c p example_new_file_paths t e
    by simp
  also have "\<dots> = {?a, ?c}"
    using pa pb pc by (rule three_paths_minus)
  finally show ?thesis .
qed

text \<open>
  Claim C1 on two tasks submitted one after the other for the same source, instrument,
  product type, band and size, starting from empty caches, every extraction succeeding.
  The first task misses the cache and extracts.  After it, the artifact is in the
  permanent tier, and the file of the ephemeral tier that the cache check looks for is
  not there: no statement of the program writes it.  The second task therefore misses
  again and extracts again, although the permanent artifact exists.
\<close>

theorem process_task_extracts_again:
  "snd (snd (process_task example_repr example_repr ''/srv/app'' (\<lambda>i file_type. True)
               ''task-1'' example_config example_catalog {}))
     = [(0, ''VIS'', ''BGSUB'')]
   \<and> ''/home/aaron/tmp/Euclid_download/VIS/42_VIS_BGSUB.fits'' \<in> after_first_task
   \<and> cache_file example_repr ''/srv/app'' example_config (example_catalog ! 0) ''VIS''
        ''BGSUB'' \<notin> after_first_task
   \<and> fst (snd (process_task example_repr example_repr ''/srv/app'' (\<lambda>i file_type. True)
               ''task-2'' example_config example_catalog after_first_task))
     = []
   \<and> snd (snd (process_task example_repr example_repr ''/srv/app'' (\<lambda>i file_type. True)
               ''task-2'' example_config example_catalog after_first_task))
     = [(0, ''VIS'', ''BGSUB'')]"
proof -
  have miss: "cache_file example_repr ''/srv/app'' example_config (example_catalog ! 0)
                ''VIS'' ''BGSUB'' \<notin> after_first_task"
    unfolding example_cache_file example_after_first_task by simp
  have first: "snd (snd (process_task example_repr example_repr ''/srv/app''
                 (\<lambda>i file_type. True) ''task-1'' example_config example_catalog {}))
     = [(0, ''VIS'', ''BGSUB'')]"
    by (simp add: process_task_def sources_to_process_def example_work_items Let_def)
  have hit: "fst (snd (process_task example_repr example_repr ''/srv/app''
                 (\<lambda>i file_type. True) ''task-2'' example_config example_catalog
                 after_first_task)) = []"
    using miss
    by (simp add: process_task_def cached_sources_info_def example_work_items Let_def)
  have again: "snd (snd (process_task example_repr example_repr ''/srv/app''
                 (\<lambda>i file_type. True) ''task-2'' example_config example_catalog
                 after_first_task)) = [(0, ''VIS'', ''BGSUB'')]"
    using miss
    by (simp add: process_task_def sources_to_process_def example_work_items Let_def)
  have perm: "''/home/aaron/tmp/Euclid_download/VIS/42_VIS_BGSUB.fits'' \<in> after_first_task"
    unfolding example_after_first_task by simp
  from first perm miss hit again show ?thesis by blast
qed

section \<open>Properties of the task registry\<close>

lemma update_status_status_in:
  "tasks task_id \<noteq> None \<Longrightarrow> status \<in> set allowed \<Longrightarrow>
     \<exists>tasks'. update_status task_id status progress message tasks = Inr tasks'
              \<and> status_in allowed task_id tasks'"
  by (auto simp: update_status_def status_in_def Let_def split: option.splits)

lemma apply_op_status_in:
  assumes "status_in [''processing'', ''completed'', ''failed'', ''cancelled''] task_id tasks"
  shows "\<exists>tasks'. apply_op task_id op tasks = Inr tasks'
           \<and> status_in [''processing'', ''completed'', ''failed'', ''cancelled''] task_id
                tasks'"
proof -
  from assms obtain t where t: "tasks task_id = Some t"
    and s: "task_status t \<in> set [''processing'', ''completed'', ''failed'', ''cancelled'']"
    by (auto simp: status_in_def split: option.splits)
  then have ex: "tasks task_id \<noteq> None" by simp
  note upd = update_status_status_in [where tasks = tasks and task_id = task_id, OF ex]
  show ?thesis
  proof (cases op)
    case Begin
    with upd [where status = "''processing''"] show ?thesis
      by (simp add: apply_op_def)
  next
    case (Truncated m)
    with upd [where status = "''processing''"] show ?thesis
      by (simp add: apply_op_def)
  next
    case CachedResult
    with t show ?thesis by (simp add: apply_op_def status_in_def)
  next
    case Done
    with upd [where status = "''completed''"] show ?thesis
      by (simp add: apply_op_def)
  next
    case (Fail m)
    with upd [where status = "''failed''"] show ?thesis
      by (simp add: apply_op_def)
  next
    case Cancel
    with t s show ?thesis
      by (auto simp: apply_op_def cancel_task_def status_in_def)
  qed
qed

lemma apply_ops_status_in:
  "status_in [''processing'', ''completed'', ''failed'', ''cancelled''] task_id tasks \<Longrightarrow>
     \<exists>tasks'. apply_ops task_id ops tasks = Inr tasks'
              \<and> status_in [''processing'', ''completed'', ''failed'', ''cancelled''] task_id
                   tasks'"
proof (induction ops arbitrary: tasks)
  case Nil
  then show ?case by simp
next
  case (Cons op ops)
  from apply_op_status_in [OF Cons.prems, of op] obtain tasks1 where
    "apply_op task_id op tasks = Inr tasks1"
    "status_in [''processing'', ''completed'', ''failed'', ''cancelled''] task_id tasks1"
    by blast
  with Cons.IH [of tasks1] show ?case by simp
qed

text \<open>
  Claim C8, as the code has it.  After a task has been created and its executor has made
  its first update, whatever the executor and the cancel requests then do, in whatever
  order, the task stays in the registry with one of the statuses \<open>processing\<close>,
  \<open>completed\<close>, \<open>failed\<close>, \<open>cancelled\<close>, all of them values of \<open>TaskStatus\<close>; and a
  cancel request on a completed or failed task is refused and changes nothing.  The
  executor's updates overwrite the status whatever it is.
\<close>

theorem task_status_in_enum:
  "(\<exists>tasks'. apply_ops task_id (Begin # ops) (create_task task_id tasks) = Inr tasks'
       \<and> status_in [''processing'', ''completed'', ''failed'', ''cancelled''] task_id tasks'
       \<and> status_in TaskStatus task_id tasks')
   \<and> (\<forall>(tasks0 :: registry) t0. tasks0 task_id = Some t0
         \<and> task_status t0 \<in> set [''completed'', ''failed''] \<longrightarrow>
         cancel_task task_id tasks0 = (False, tasks0))"
proof (intro conjI allI impI)
  have "create_task task_id tasks task_id \<noteq> None"
    by (simp add: create_task_def)
  from update_status_status_in [where tasks = "create_task task_id tasks"
      and task_id = task_id and status = "''processing''"
      and allowed = "[''processing'', ''completed'', ''failed'', ''cancelled'']"
      and progress = "Some 0" and message = None, OF this]
  obtain tasks1 where b: "apply_op task_id Begin (create_task task_id tasks) = Inr tasks1"
    and i: "status_in [''processing'', ''completed'', ''failed'', ''cancelled''] task_id
              tasks1"
    by (auto simp: apply_op_def)
  from apply_ops_status_in [OF i, of ops] obtain tasks' where
    r: "apply_ops task_id ops tasks1 = Inr tasks'"
    and i': "status_in [''processing'', ''completed'', ''failed'', ''cancelled''] task_id
               tasks'"
    by blast
  from i' have "status_in TaskStatus task_id tasks'"
    by (auto simp: status_in_def TaskStatus_def split: option.splits)
  with b r i' show "\<exists>tasks'. apply_ops task_id (Begin # ops) (create_task task_id tasks)
         = Inr tasks'
       \<and> status_in [''processing'', ''completed'', ''failed'', ''cancelled''] task_id tasks'
       \<and> status_in TaskStatus task_id tasks'"
    by simp
next
  fix tasks0 :: registry and t0
  assume "tasks0 task_id = Some t0 \<and> task_status t0 \<in> set [''completed'', ''failed'']"
  then show "cancel_task task_id tasks0 = (False, tasks0)"
    by (auto simp: cancel_task_def)
qed

theorem task_status_in_enum_witness:
  "status_of ''t1'' (apply_ops ''t1'' [Begin, Cancel, Done] (create_task ''t1'' Map.empty))
     = Some ''completed''
   \<and> ''completed'' \<in> set TaskStatus
   \<and> cancel_task ''t1'' [''t1'' \<mapsto> \<lparr>task_status = ''completed'', task_progress = Some 100,
                                   task_message = None\<rparr>]
     = (False, [''t1'' \<mapsto> \<lparr>task_status = ''completed'', task_progress = Some 100,
                            task_message = None\<rparr>])"
proof -
  let ?done = "[''t1'' \<mapsto> \<lparr>task_status = ''completed'', task_progress = Some 100,
                            task_message = None\<rparr>]"
  note t = task_status_in_enum [of "''t1''" "[Cancel, Done]" Map.empty]
  from t obtain tasks' where
    "apply_ops ''t1'' [Begin, Cancel, Done] (create_task ''t1'' Map.empty) = Inr tasks'"
    "status_in TaskStatus ''t1'' tasks'"
    by blast
  moreover have "status_of ''t1''
      (apply_ops ''t1'' [Begin, Cancel, Done] (create_task ''t1'' Map.empty))
        = Some ''completed''"
    by (simp add: status_of_def apply_op_def update_status_def cancel_task_def
        create_task_def)
  moreover have "?done ''t1'' = Some \<lparr>task_status = ''completed'', task_progress = Some 100,
        task_message = None\<rparr>
      \<and> task_status \<lparr>task_status = ''completed'', task_progress = Some 100,
        task_message = None\<rparr> \<in> set [''completed'', ''failed'']"
    by simp
  with t have "cancel_task ''t1'' ?done = (False, ?done)"
    by blast
  ultimately show ?thesis
    by (simp add: TaskStatus_def)
qed

text \<open>
  Claim C8 as stated fails.  A task created by \<open>TaskProcessor.create_task\<close> is first
  seen with the status \<open>pending\<close>, which is not a value of \<open>TaskStatus\<close> (the legacy
  \<open>submit_task\<close> registers \<open>queued\<close>).  And a task cancelled while its executor runs
  goes from \<open>cancelled\<close> to \<open>completed\<close> when the executor ends.
\<close>

theorem task_status_counterexample:
  "map_option task_status (get_task_status ''t1'' (create_task ''t1'' Map.empty))
     = Some ''pending''
   \<and> ''pending'' \<notin> set TaskStatus
   \<and> map_option task_status (get_task_status ''t1'' (submit_task ''t1'' Map.empty))
     = Some ''queued''
   \<and> status_of ''t1'' (apply_ops ''t1'' [Begin] (create_task ''t1'' Map.empty))
     = Some ''processing''
   \<and> status_of ''t1'' (apply_ops ''t1'' [Begin, Cancel] (create_task ''t1'' Map.empty))
     = Some ''cancelled''
   \<and> status_of ''t1'' (apply_ops ''t1'' [Begin, Cancel, Done] (create_task ''t1'' Map.empty))
     = Some ''completed''
   \<and> status_of ''t1'' (apply_ops ''t1'' [Cancel, Begin] (create_task ''t1'' Map.empty))
     = Some ''processing''"
  by (simp add: get_task_status_def create_task_def submit_task_def TaskStatus_def
      status_of_def apply_op_def update_status_def cancel_task_def)

end
